theory Spec2Isabelle
  imports Main
begin

section \<open>Go library functions used by the sources\<close>

text \<open>
  Go strings are byte sequences; they are modelled as \<open>string\<close> (a list of bytes), so
  \<open>length\<close> is Go's \<open>len\<close>. Go's \<open>int\<close> (64 bits) is modelled as \<open>int\<close>: the sums and
  differences the code computes are of byte offsets into a text held in memory, of its
  line lengths and of a position's line and character, which stay far inside the range.
\<close>

abbreviation LF :: char where "LF \<equiv> CHR 0x0A"

abbreviation CR :: char where "CR \<equiv> CHR 0x0D"

text \<open>\<open>strings.Split(s, "\n")\<close>: the pieces between the separators; one piece more than
  there are separators, so the empty text has the single piece \<open>""\<close>.\<close>

fun Split :: "string \<Rightarrow> string list" where
  "Split [] = [[]]"
| "Split (c # cs) =
     (if c = LF then [] # Split cs
      else (case Split cs of l # ls \<Rightarrow> (c # l) # ls | [] \<Rightarrow> [[c]]))"

text \<open>\<open>strings.Join(elems, sep)\<close>.\<close>

fun Join :: "string list \<Rightarrow> string \<Rightarrow> string" where
  "Join [] sep = []"
| "Join [x] sep = x"
| "Join (x # y # ys) sep = x @ sep @ Join (y # ys) sep"

text \<open>\<open>strings.HasPrefix\<close> and \<open>strings.TrimPrefix\<close>.\<close>

definition HasPrefix :: "string \<Rightarrow> string \<Rightarrow> bool" where
  "HasPrefix s pre = (take (length pre) s = pre)"

definition TrimPrefix :: "string \<Rightarrow> string \<Rightarrow> string" where
  "TrimPrefix s pre = (if HasPrefix s pre then drop (length pre) s else s)"

subsection \<open>bufio.Scanner with bufio.ScanLines over strings.NewReader\<close>

text \<open>
  \<open>bufio.ScanLines\<close> returns each line of the input stripped of its end-of-line marker,
  which is an optional carriage return followed by a newline; the last line is returned
  even without a newline, and an empty rest of the input yields no token.
  \<open>dropCR\<close> is the library's helper of that name.
\<close>

definition dropCR :: "string \<Rightarrow> string" where
  "dropCR data = (if data \<noteq> [] \<and> last data = CR then butlast data else data)"

text \<open>
  The scanner's buffer holds at most \<open>bufio.MaxScanTokenSize\<close> bytes. A line that has
  no newline within that many bytes makes \<open>Scan\<close> fail with \<open>ErrTooLong\<close>; the scanner
  keeps what it has buffered (\<open>pending\<close>), and since the error is then set, the next
  \<open>Scan\<close> hands the split function the buffer as if at the end of the input, which
  returns it as a last token. After that, and at the end of the input, \<open>Scan\<close> returns
  false and \<open>Text\<close> is empty.
\<close>

definition MaxScanTokenSize :: nat where
  "MaxScanTokenSize = 65536"

record Scanner =
  unread :: string
  token :: string
  tooLong :: bool
  pending :: string

definition NewScanner :: "string \<Rightarrow> Scanner" where
  "NewScanner s = \<lparr>unread = s, token = [], tooLong = False, pending = []\<rparr>"

definition Scan :: "Scanner \<Rightarrow> Scanner" where
  "Scan s =
     (if tooLong s then
        (if pending s \<noteq> [] then s\<lparr>token := dropCR (pending s), pending := []\<rparr>
         else s\<lparr>token := []\<rparr>)
      else if unread s = [] then s\<lparr>token := []\<rparr>
      else
        (let line = takeWhile (\<lambda>c. c \<noteq> LF) (unread s) in
         if length line < MaxScanTokenSize then
           s\<lparr>token := dropCR line, unread := drop (length line + 1) (unread s)\<rparr>
         else
           s\<lparr>token := [], tooLong := True, pending := take MaxScanTokenSize (unread s),
             unread := []\<rparr>))"

definition Text :: "Scanner \<Rightarrow> string" where
  "Text s = token s"

section \<open>Position Mapper\<close>

record Position =
  Line :: int
  Character :: int

text \<open>
  \<open>positionToByteOffset\<close>: the loop \<open>for i := 0; i < position.Line; i++\<close> runs
  \<open>nat (Line position)\<close> times (not at all for a negative line); each round scans one
  line and adds its length plus one. The result of \<open>buf.Scan()\<close> is ignored by the
  source, so past the end of the text every round adds one.
\<close>

fun scanLoop :: "nat \<Rightarrow> Scanner \<Rightarrow> int \<Rightarrow> int" where
  "scanLoop 0 buf offset = offset"
| "scanLoop (Suc n) buf offset =
     (let buf' = Scan buf in scanLoop n buf' (offset + (int (length (Text buf')) + 1)))"

definition positionToByteOffset :: "string \<Rightarrow> Position \<Rightarrow> int" where
  "positionToByteOffset sql position =
     scanLoop (nat (Line position)) (NewScanner sql) 0 + Character position"

text \<open>
  \<open>byteOffsetToPosition\<close>: the loop over \<open>strings.Split(sql, "\n")\<close>, with the running
  \<open>line\<close> and \<open>offset\<close>; the boolean is the source's second result.
\<close>

fun offsetLoop :: "string list \<Rightarrow> int \<Rightarrow> int \<Rightarrow> Position \<times> bool" where
  "offsetLoop [] line offset = (\<lparr>Line = 0, Character = 0\<rparr>, False)"
| "offsetLoop (l # ls) line offset =
     (if offset < int (length l) + 1 then (\<lparr>Line = line, Character = offset\<rparr>, True)
      else offsetLoop ls (line + 1) (offset - (int (length l) + 1)))"

definition byteOffsetToPosition :: "string \<Rightarrow> int \<Rightarrow> Position \<times> bool" where
  "byteOffsetToPosition sql offset = offsetLoop (Split sql) 0 offset"

section \<open>Data model\<close>

text \<open>A location range is the pair of the start and the end byte offset
  (\<open>lRange.Start().ByteOffset()\<close>, \<open>lRange.End().ByteOffset()\<close>); a node without one
  returns nil from \<open>ParseLocationRange()\<close>.\<close>

type_synonym ParseLocationRange = "int \<times> int"

subsection \<open>Surface syntax tree (go-zetasql/ast)\<close>

text \<open>
  A node of the surface tree is modelled by what the sources read of it: its concrete
  kind with the data obtained from its children (the names of a path expression, the
  path of a table path expression, the expression of a select column), its location
  range, and its parent link (\<open>Parent()\<close>, nil at the root). A node therefore carries its
  whole chain of ancestors, which is finite as in every tree.
\<close>

datatype ExpressionNode =
    PathExpression "string list"
  | OtherExpression

datatype ast_payload =
    PathExpressionNode "string list"
  | TablePathExpressionNode "string list option"
  | SelectColumnNode ExpressionNode "string option" string
  | OtherAstNode

text \<open>\<open>PathExpressionNode names\<close>: the \<open>Name()\<close> of each of \<open>Names()\<close>.
  \<open>TablePathExpressionNode path\<close>: the names of \<open>PathExpr()\<close>, \<open>None\<close> when it is nil.
  \<open>SelectColumnNode expression alias debug\<close>: \<open>Expression()\<close>, \<open>Alias()\<close> and the text of
  \<open>DebugString(0)\<close>.\<close>

datatype ast_node =
  AstNode (payload: ast_payload) (ParseLocationRange: "ParseLocationRange option")
    (Parent: "ast_node option")

text \<open>The instances of the type parameter \<open>T\<close> allowed by the constraint \<open>astNode\<close>.\<close>

datatype astNode = TablePathExpressionT | PathExpressionT | SelectColumnT

text \<open>The type assertion \<open>n.(T)\<close>.\<close>

fun assertT :: "astNode \<Rightarrow> ast_node \<Rightarrow> bool" where
  "assertT PathExpressionT (AstNode (PathExpressionNode ns) r p) = True"
| "assertT TablePathExpressionT (AstNode (TablePathExpressionNode pe) r p) = True"
| "assertT SelectColumnT (AstNode (SelectColumnNode e a d) r p) = True"
| "assertT T n = False"

subsection \<open>Resolved tree (go-zetasql/resolved_ast)\<close>

text \<open>A resolved column; \<open>col_Type\<close> is the text of
  \<open>column.Type().TypeName(types.ProductExternal)\<close>.\<close>

record Column =
  col_Name :: string
  col_TableName :: string
  col_Type :: string

text \<open>The scan nodes: the five kinds the source's type switch names, and every other
  kind. Each has a location range (possibly nil) and a column list; the first three have
  an input scan (possibly nil).\<close>

datatype ScanNode =
    ProjectScanNode "ParseLocationRange option" "Column list" "ScanNode option"
  | WithScanNode "ParseLocationRange option" "Column list" "ScanNode option"
  | OrderByScanNode "ParseLocationRange option" "Column list" "ScanNode option"
  | TableScanNode "ParseLocationRange option" "Column list" string
  | WithRefScanNode "ParseLocationRange option" "Column list" string
  | OtherScanNode "ParseLocationRange option" "Column list"

fun ScanRange :: "ScanNode \<Rightarrow> ParseLocationRange option" where
  "ScanRange (ProjectScanNode r cs i) = r"
| "ScanRange (WithScanNode r cs q) = r"
| "ScanRange (OrderByScanNode r cs i) = r"
| "ScanRange (TableScanNode r cs a) = r"
| "ScanRange (WithRefScanNode r cs n) = r"
| "ScanRange (OtherScanNode r cs) = r"

fun ColumnList :: "ScanNode \<Rightarrow> Column list" where
  "ColumnList (ProjectScanNode r cs i) = cs"
| "ColumnList (WithScanNode r cs q) = cs"
| "ColumnList (OrderByScanNode r cs i) = cs"
| "ColumnList (TableScanNode r cs a) = cs"
| "ColumnList (WithRefScanNode r cs n) = cs"
| "ColumnList (OtherScanNode r cs) = cs"

text \<open>
  The resolved nodes the hover reads. \<open>FunctionCallNode range name sigs\<close>: \<open>name\<close> is
  \<open>Function().SQLName()\<close> and \<open>sigs\<close> the \<open>DebugString\<close> of each signature.
  \<open>GetStructFieldNode range type\<close>: the type name. \<open>ColumnRefNode range column text\<close>:
  \<open>Column()\<close> (possibly nil) and the text \<open>%v\<close> prints for the node.
\<close>

datatype rast_node =
    FunctionCallNode "ParseLocationRange option" string "string list"
  | GetStructFieldNode "ParseLocationRange option" string
  | ColumnRefNode "ParseLocationRange option" "Column option" string
  | Scan_Node ScanNode
  | OtherResolvedNode "ParseLocationRange option"

fun rastRange :: "rast_node \<Rightarrow> ParseLocationRange option" where
  "rastRange (FunctionCallNode r n sigs) = r"
| "rastRange (GetStructFieldNode r t) = r"
| "rastRange (ColumnRefNode r c v) = r"
| "rastRange (Scan_Node s) = ScanRange s"
| "rastRange (OtherResolvedNode r) = r"

datatype rastT = FunctionCallT | GetStructFieldT | ColumnRefT

fun assertR :: "rastT \<Rightarrow> rast_node \<Rightarrow> bool" where
  "assertR FunctionCallT (FunctionCallNode r n sigs) = True"
| "assertR GetStructFieldT (GetStructFieldNode r t) = True"
| "assertR ColumnRefT (ColumnRefNode r c v) = True"
| "assertR T n = False"

text \<open>A tree is given by its nodes in the order in which the library's \<open>Walk\<close> visits
  them: \<open>ast.Walk(root, f)\<close> and \<open>rast.Walk(output.Statement(), f)\<close> call \<open>f\<close> on each
  node of the tree once, and every callback of the sources returns nil.\<close>

type_synonym AnalyzerOutput = "rast_node list"

subsection \<open>Metadata, results, the project\<close>

record FieldSchema =
  fs_Name :: string
  fs_Type :: string
  fs_Description :: string

text \<open>\<open>bigquery.TableMetadata\<close>; the two times are held as the text of
  \<open>Format("2006-01-02 15:04:05")\<close>.\<close>

record TableMetadata =
  FullID :: string
  Description :: string
  CreationTime :: string
  LastModifiedTime :: string
  Schema :: "FieldSchema list"

datatype SchemaY = SchemaY string string string string "SchemaY list"

record MarkedString =
  Language :: string
  Value :: string

text \<open>An error is its message; a panic is a failure of its own, which no caller in the
  sources recovers.\<close>

datatype failure = Panic string | Error string

definition nilDereference :: string where
  "nilDereference = ''runtime error: invalid memory address or nil pointer dereference''"

text \<open>\<open>fmt.Errorf("msg: %w", err)\<close>.\<close>

definition Errorf :: "string \<Rightarrow> string \<Rightarrow> string" where
  "Errorf msg err = msg @ '': '' @ err"

record CachedFile =
  RawText :: string

text \<open>
  \<open>ParsedFile\<close>: the surface tree, and the two methods of it that \<open>TermDocument\<close> calls
  and that are not among the sources; they are parameters here.
\<close>

record ParsedFile =
  Node :: "ast_node list"
  fixTermOffsetForNode :: "int \<Rightarrow> int"
  FindTargetAnalyzeOutput :: "int \<Rightarrow> AnalyzerOutput option"

text \<open>
  \<open>Project\<close>: the document cache, and the collaborators that are not among the sources,
  as parameters: the parser (\<open>ParseFile\<close>), the Schema Metadata Store
  (\<open>getTableMetadataFromPath\<close>, which returns an error or a table), and the three library
  calls that serialise a schema.
\<close>

record Project =
  cache :: "string \<rightharpoonup> CachedFile"
  ParseFile :: "string \<Rightarrow> string \<Rightarrow> ParsedFile"
  getTableMetadataFromPath :: "string \<Rightarrow> string + TableMetadata"
  ToJSONFields :: "FieldSchema list \<Rightarrow> string + string"
  Unmarshal :: "string \<Rightarrow> string + SchemaY list"
  Marshal :: "SchemaY list \<Rightarrow> string + string"

section \<open>Document Cache (project.go)\<close>

text \<open>Modelled from the spec: \<open>cache.GlobalCache\<close> is not among the sources. Section 4.1:
  put replaces or creates the document, get finds it or not, delete removes it.
  \<open>GetFile\<close> shows that \<open>Get\<close> returns nil for a path that is not cached.\<close>

definition cache_Put :: "(string \<rightharpoonup> CachedFile) \<Rightarrow> string \<Rightarrow> string \<Rightarrow> (string \<rightharpoonup> CachedFile)" where
  "cache_Put c path text = c(path \<mapsto> \<lparr>RawText = text\<rparr>)"

definition cache_Get :: "(string \<rightharpoonup> CachedFile) \<Rightarrow> string \<Rightarrow> CachedFile option" where
  "cache_Get c path = c path"

definition cache_Delete :: "(string \<rightharpoonup> CachedFile) \<Rightarrow> string \<Rightarrow> (string \<rightharpoonup> CachedFile)" where
  "cache_Delete c path = c(path := None)"

definition UpdateFile :: "Project \<Rightarrow> string \<Rightarrow> string \<Rightarrow> int \<Rightarrow> Project" where
  "UpdateFile p path text version = p\<lparr>cache := cache_Put (cache p) path text\<rparr>"

definition GetFile :: "Project \<Rightarrow> string \<Rightarrow> string \<times> bool" where
  "GetFile p path =
     (case cache_Get (cache p) path of
        None \<Rightarrow> ([], False)
      | Some policy \<Rightarrow> (RawText policy, True))"

definition DeleteFile :: "Project \<Rightarrow> string \<Rightarrow> Project" where
  "DeleteFile p path = p\<lparr>cache := cache_Delete (cache p) path\<rparr>"

section \<open>Node Locator\<close>

text \<open>
  \<open>searchAstNode[T]\<close> and \<open>searchResolvedAstNode[T]\<close>: the callback overwrites
  \<open>targetNode\<close> at every node of kind \<open>T\<close> that has a location range with
  \<open>startOffset <= termOffset && termOffset <= endOffset\<close>. The loops carry \<open>targetNode\<close>
  (with \<open>found\<close>: \<open>None\<close> is \<open>found = false\<close>).
\<close>

fun searchAstLoop :: "astNode \<Rightarrow> ast_node list \<Rightarrow> int \<Rightarrow> ast_node option \<Rightarrow> ast_node option" where
  "searchAstLoop T [] termOffset targetNode = targetNode"
| "searchAstLoop T (n # ns) termOffset targetNode =
     (if \<not> assertT T n then searchAstLoop T ns termOffset targetNode
      else
        (case ParseLocationRange n of
           None \<Rightarrow> searchAstLoop T ns termOffset targetNode
         | Some (startOffset, endOffset) \<Rightarrow>
             (if startOffset \<le> termOffset \<and> termOffset \<le> endOffset
              then searchAstLoop T ns termOffset (Some n)
              else searchAstLoop T ns termOffset targetNode)))"

definition searchAstNode :: "astNode \<Rightarrow> ast_node list \<Rightarrow> int \<Rightarrow> ast_node option" where
  "searchAstNode T node termOffset = searchAstLoop T node termOffset None"

fun searchResolvedLoop :: "rastT \<Rightarrow> rast_node list \<Rightarrow> int \<Rightarrow> rast_node option \<Rightarrow> rast_node option" where
  "searchResolvedLoop T [] termOffset targetNode = targetNode"
| "searchResolvedLoop T (n # ns) termOffset targetNode =
     (if \<not> assertR T n then searchResolvedLoop T ns termOffset targetNode
      else
        (case rastRange n of
           None \<Rightarrow> searchResolvedLoop T ns termOffset targetNode
         | Some (startOffset, endOffset) \<Rightarrow>
             (if startOffset \<le> termOffset \<and> termOffset \<le> endOffset
              then searchResolvedLoop T ns termOffset (Some n)
              else searchResolvedLoop T ns termOffset targetNode)))"

definition searchResolvedAstNode :: "rastT \<Rightarrow> AnalyzerOutput \<Rightarrow> int \<Rightarrow> rast_node option" where
  "searchResolvedAstNode T output termOffset = searchResolvedLoop T output termOffset None"

text \<open>\<open>lookupNode[T]\<close>; the argument \<open>None\<close> is the nil node. The function is the same in
  both revisions of the file.\<close>

fun lookupNode :: "astNode \<Rightarrow> ast_node option \<Rightarrow> ast_node option" where
  "lookupNode T None = None"
| "lookupNode T (Some (AstNode pl r parent)) =
     (if assertT T (AstNode pl r parent) then Some (AstNode pl r parent)
      else lookupNode T parent)"

text \<open>The chain of a node: the node itself, its parent, its grandparent, up to the
  root. It is used to state what \<open>lookupNode\<close> returns.\<close>

fun chain :: "ast_node option \<Rightarrow> ast_node list" where
  "chain None = []"
| "chain (Some (AstNode pl r parent)) = AstNode pl r parent # chain parent"

section \<open>Hover Resolver\<close>

text \<open>Modelled from the spec: \<open>createTableNameFromTablePathExpressionNode\<close> is not among
  the sources. Section 4.4, step 1: the dotted path of the table path expression, its
  segment names joined with a dot. The earlier revision of the file has these steps
  inline in \<open>createTableMarkedString\<close>, where a nil \<open>PathExpr()\<close> gives no name.\<close>

fun createTableNameFromTablePathExpressionNode :: "ast_node \<Rightarrow> string option" where
  "createTableNameFromTablePathExpressionNode (AstNode (TablePathExpressionNode (Some pathNames)) r p) =
     Some (Join pathNames ''.'')"
| "createTableNameFromTablePathExpressionNode n = None"

definition buildBigQueryTableMetadataMarkedString ::
    "Project \<Rightarrow> TableMetadata \<Rightarrow> failure + MarkedString list" where
  "buildBigQueryTableMetadataMarkedString p metadata =
     (let resultStr = ''## '' @ FullID metadata;
          resultStr = (if length (Description metadata) > 0
                       then resultStr @ [LF] @ Description metadata else resultStr);
          resultStr = resultStr @ [LF] @ ''created at '' @ CreationTime metadata;
          resultStr = resultStr @ [LF] @ ''last modified at '' @ LastModifiedTime metadata
      in case ToJSONFields p (Schema metadata) of
           Inl err \<Rightarrow> Inl (Error (Errorf ''failed to convert schema to json'' err))
         | Inr schemaJson \<Rightarrow>
             (case Unmarshal p schemaJson of
                Inl err \<Rightarrow> Inl (Error (Errorf ''failed to unmarshal json'' err))
              | Inr result \<Rightarrow>
                  (case Marshal p result of
                     Inl err \<Rightarrow> Inl (Error (Errorf ''failed to marshal yaml'' err))
                   | Inr schemaYaml \<Rightarrow>
                       Inr [\<lparr>Language = ''markdown'', Value = resultStr\<rparr>,
                            \<lparr>Language = ''yaml'', Value = schemaYaml\<rparr>])))"

text \<open>\<open>createTableMarkedString\<close>; the slice \<open>columns\<close> of the source is never read.\<close>

definition createTableMarkedString :: "Project \<Rightarrow> ast_node \<Rightarrow> failure + MarkedString list" where
  "createTableMarkedString p node =
     (case createTableNameFromTablePathExpressionNode node of
        None \<Rightarrow> Inr []
      | Some tablePath \<Rightarrow>
          (case getTableMetadataFromPath p tablePath of
             Inl err \<Rightarrow> Inl (Error (Errorf ''failed to get table metadata'' err))
           | Inr targetTable \<Rightarrow> buildBigQueryTableMetadataMarkedString p targetTable))"

text \<open>\<open>getSelectColumnName\<close> (this revision does not read \<open>Alias()\<close>).\<close>

fun getSelectColumnName :: "ast_node \<Rightarrow> string option" where
  "getSelectColumnName (AstNode (SelectColumnNode (PathExpression names) alias dbg) r p) =
     Some (Join names ''.'')"
| "getSelectColumnName n = None"

fun DebugString :: "ast_node \<Rightarrow> string" where
  "DebugString (AstNode (SelectColumnNode e alias dbg) r p) = dbg"
| "DebugString n = []"

text \<open>
  \<open>getSelectColumnNodeToAnalyzedOutputCoumnNode\<close>, in the order of the source: the scan
  nodes of the walk; the loop that chooses \<open>targetScanNode\<close>, with its variable
  \<open>mostNarrowWidth\<close>, which the source initialises to \<open>math.MaxInt\<close> and never assigns
  again; the walk down the input chain collecting \<open>refNames\<close>; the prefix removal; the
  search of the column list. The parameter \<open>termOffset\<close> is not read by the source.
\<close>

definition MaxInt :: int where
  "MaxInt = 9223372036854775807"

fun scanNodesOf :: "AnalyzerOutput \<Rightarrow> ScanNode list" where
  "scanNodesOf [] = []"
| "scanNodesOf (Scan_Node t # ns) = t # scanNodesOf ns"
| "scanNodesOf (n # ns) = scanNodesOf ns"

fun narrowLoop :: "ScanNode list \<Rightarrow> int \<Rightarrow> ScanNode option \<Rightarrow> ScanNode option" where
  "narrowLoop [] mostNarrowWidth targetScanNode = targetScanNode"
| "narrowLoop (node # nodes) mostNarrowWidth targetScanNode =
     (case ScanRange node of
        None \<Rightarrow> narrowLoop nodes mostNarrowWidth targetScanNode
      | Some (startOffset, endOffset) \<Rightarrow>
          (let width = endOffset - startOffset in
           if width < mostNarrowWidth then narrowLoop nodes mostNarrowWidth (Some node)
           else narrowLoop nodes mostNarrowWidth targetScanNode))"

fun refNamesLoop :: "ScanNode option \<Rightarrow> string list \<Rightarrow> string list" where
  "refNamesLoop None refNames = refNames"
| "refNamesLoop (Some (ProjectScanNode r cs inputScan)) refNames = refNamesLoop inputScan refNames"
| "refNamesLoop (Some (WithScanNode r cs query)) refNames = refNamesLoop query refNames"
| "refNamesLoop (Some (OrderByScanNode r cs inputScan)) refNames = refNamesLoop inputScan refNames"
| "refNamesLoop (Some (TableScanNode r cs alias)) refNames =
     (if alias \<noteq> [] then refNames @ [alias] else refNames)"
| "refNamesLoop (Some (WithRefScanNode r cs withQueryName)) refNames = refNames @ [withQueryName]"
| "refNamesLoop (Some (OtherScanNode r cs)) refNames = refNames"

fun removePrefixLoop :: "string list \<Rightarrow> string \<Rightarrow> string" where
  "removePrefixLoop [] columnName = columnName"
| "removePrefixLoop (refName # refNames) columnName =
     (let tablePrefix = refName @ ''.'' in
      if HasPrefix columnName tablePrefix
      then removePrefixLoop refNames (TrimPrefix columnName tablePrefix)
      else removePrefixLoop refNames columnName)"

definition getSelectColumnNodeToAnalyzedOutputCoumnNode ::
    "AnalyzerOutput \<Rightarrow> ast_node \<Rightarrow> int \<Rightarrow> failure + Column" where
  "getSelectColumnNodeToAnalyzedOutputCoumnNode output column termOffset =
     (let scanNodes = scanNodesOf output;
          targetScanNode = narrowLoop scanNodes MaxInt None;
          refNames = refNamesLoop targetScanNode []
      in case getSelectColumnName column of
           None \<Rightarrow> Inl (Error (''failed getSelectColumnName: '' @ DebugString column))
         | Some columnName \<Rightarrow>
             (let columnName = removePrefixLoop refNames columnName
              in case targetScanNode of
                   None \<Rightarrow> Inl (Panic nilDereference)
                 | Some scan \<Rightarrow>
                     (case find (\<lambda>c. col_Name c = columnName) (ColumnList scan) of
                        Some c \<Rightarrow> Inr c
                      | None \<Rightarrow> Inl (Error ''failed to find column info''))))"

text \<open>
  The block that the column-reference step and the select-column step of \<open>TermDocument\<close>
  both end with (lines 123-143 and 152-171): look the column's table up; on an error
  return the block \<open>name: type\<close>; otherwise return the first schema field of the same
  name as \<open>name: type\ndescription\<close>. \<open>None\<close>: the loop over the schema ended without a
  return, and control leaves the enclosing \<open>if\<close>.
\<close>

definition columnMarkedString :: "Project \<Rightarrow> Column \<Rightarrow> MarkedString list option" where
  "columnMarkedString p column =
     (case getTableMetadataFromPath p (col_TableName column) of
        Inl err \<Rightarrow>
          Some [\<lparr>Language = ''markdown'', Value = col_Name column @ '': '' @ col_Type column\<rparr>]
      | Inr tableMetadata \<Rightarrow>
          (case find (\<lambda>c. col_Name column = fs_Name c) (Schema tableMetadata) of
             Some c \<Rightarrow>
               Some [\<lparr>Language = ''markdown'',
                      Value = fs_Name c @ '': '' @ fs_Type c @ [LF] @ fs_Description c\<rparr>]
           | None \<Rightarrow> None))"

text \<open>
  The strategies of \<open>TermDocument\<close>, one definition for each \<open>if\<close> block of the source.
  A step returns \<open>Some\<close> of what \<open>TermDocument\<close> returns from inside the block, and \<open>None\<close>
  when control falls out of the block to the next one.
\<close>

text \<open>Lines 80-88: the table path expression.\<close>

definition tableStep :: "Project \<Rightarrow> ast_node \<Rightarrow> (failure + MarkedString list) option" where
  "tableStep p targetNode =
     (case lookupNode TablePathExpressionT (Some targetNode) of
        None \<Rightarrow> None
      | Some tableNode \<Rightarrow>
          (case createTableMarkedString p tableNode of
             Inl (Error err) \<Rightarrow> Some (Inl (Error (Errorf ''failed to create table marked string'' err)))
           | Inl (Panic msg) \<Rightarrow> Some (Inl (Panic msg))
           | Inr result \<Rightarrow> (if length result > 0 then Some (Inr result) else None)))"

text \<open>Lines 95-106: the function call.\<close>

definition functionCallStep :: "AnalyzerOutput \<Rightarrow> int \<Rightarrow> (failure + MarkedString list) option" where
  "functionCallStep output termOffset =
     (case searchResolvedAstNode FunctionCallT output termOffset of
        Some (FunctionCallNode r sqlName sigs) \<Rightarrow>
          Some (Inr [\<lparr>Language = ''markdown'',
                      Value = ''## '' @ sqlName @ [LF, LF] @ Join sigs [LF]\<rparr>])
      | _ \<Rightarrow> None)"

text \<open>Lines 108-115: the struct field access.\<close>

definition getStructFieldStep :: "AnalyzerOutput \<Rightarrow> int \<Rightarrow> (failure + MarkedString list) option" where
  "getStructFieldStep output termOffset =
     (case searchResolvedAstNode GetStructFieldT output termOffset of
        Some (GetStructFieldNode r typeName) \<Rightarrow>
          Some (Inr [\<lparr>Language = ''markdown'', Value = typeName\<rparr>])
      | _ \<Rightarrow> None)"

text \<open>Lines 117-144: the column reference.\<close>

definition columnRefStep ::
    "Project \<Rightarrow> AnalyzerOutput \<Rightarrow> int \<Rightarrow> (failure + MarkedString list) option" where
  "columnRefStep p output termOffset =
     (case searchResolvedAstNode ColumnRefT output termOffset of
        Some (ColumnRefNode r None term) \<Rightarrow> Some (Inl (Error (''failed to find term: '' @ term)))
      | Some (ColumnRefNode r (Some column) term) \<Rightarrow>
          (case columnMarkedString p column of
             Some result \<Rightarrow> Some (Inr result)
           | None \<Rightarrow> None)
      | _ \<Rightarrow> None)"

text \<open>Lines 146-174: the select column, and the final \<open>return nil, nil\<close>.\<close>

definition selectColumnStep ::
    "Project \<Rightarrow> AnalyzerOutput \<Rightarrow> ast_node \<Rightarrow> int \<Rightarrow> failure + MarkedString list" where
  "selectColumnStep p output targetNode termOffset =
     (case lookupNode SelectColumnT (Some targetNode) of
        None \<Rightarrow> Inr []
      | Some selectColumnNode \<Rightarrow>
          (case getSelectColumnNodeToAnalyzedOutputCoumnNode output selectColumnNode termOffset of
             Inl (Error err) \<Rightarrow> Inl (Error (Errorf ''failed to get column info'' err))
           | Inl (Panic msg) \<Rightarrow> Inl (Panic msg)
           | Inr column \<Rightarrow>
               (case columnMarkedString p column of
                  Some result \<Rightarrow> Inr result
                | None \<Rightarrow> Inr [])))"

text \<open>
  \<open>TermDocument\<close>. \<open>p.cache.Get(uri)\<close> returns a pointer, nil for a URI that is not
  cached; the next statement reads \<open>sql.RawText\<close> through it. The result \<open>Inr []\<close> is the
  source's \<open>return nil, nil\<close>.
\<close>

definition TermDocument :: "Project \<Rightarrow> string \<Rightarrow> Position \<Rightarrow> failure + MarkedString list" where
  "TermDocument p uri position =
     (case cache_Get (cache p) uri of
        None \<Rightarrow> Inl (Panic nilDereference)
      | Some sql \<Rightarrow>
          (let parsedFile = ParseFile p uri (RawText sql);
               termOffset = positionToByteOffset (RawText sql) position;
               termOffset = fixTermOffsetForNode parsedFile termOffset
           in case searchAstNode PathExpressionT (Node parsedFile) termOffset of
                None \<Rightarrow> Inr []
              | Some targetNode \<Rightarrow>
                  (case tableStep p targetNode of
                     Some r \<Rightarrow> r
                   | None \<Rightarrow>
                       (case FindTargetAnalyzeOutput parsedFile termOffset of
                          None \<Rightarrow> Inr []
                        | Some output \<Rightarrow>
                            (case functionCallStep output termOffset of
                               Some r \<Rightarrow> r
                             | None \<Rightarrow>
                                 (case getStructFieldStep output termOffset of
                                    Some r \<Rightarrow> r
                                  | None \<Rightarrow>
                                      (case columnRefStep p output termOffset of
                                         Some r \<Rightarrow> r
                                       | None \<Rightarrow>
                                           selectColumnStep p output targetNode termOffset)))))))"

text \<open>The offset at which \<open>TermDocument\<close> searches, and the path expression it finds
  there (lines 68-73), named for the statements below.\<close>

definition termOffsetOf :: "Project \<Rightarrow> string \<Rightarrow> CachedFile \<Rightarrow> Position \<Rightarrow> int" where
  "termOffsetOf p uri sql position =
     fixTermOffsetForNode (ParseFile p uri (RawText sql))
       (positionToByteOffset (RawText sql) position)"

definition targetNodeOf :: "Project \<Rightarrow> string \<Rightarrow> CachedFile \<Rightarrow> Position \<Rightarrow> ast_node option" where
  "targetNodeOf p uri sql position =
     searchAstNode PathExpressionT (Node (ParseFile p uri (RawText sql)))
       (termOffsetOf p uri sql position)"

definition outputOf :: "Project \<Rightarrow> string \<Rightarrow> CachedFile \<Rightarrow> Position \<Rightarrow> AnalyzerOutput option" where
  "outputOf p uri sql position =
     FindTargetAnalyzeOutput (ParseFile p uri (RawText sql)) (termOffsetOf p uri sql position)"

section \<open>Diagnostic Scheduler (diagnostic.go)\<close>

text \<open>
  The loop of \<open>diagnostic\<close> owns the map \<open>running\<close>. A context made by
  \<open>context.WithCancel\<close> is identified by its index in the list of all contexts made so
  far; the entry holds the URI it was made for and whether its cancel function has been
  called. The log records, in order, what the loop does: calling a cancel function,
  storing one in the map, starting the goroutine. The channel is given by the events
  received until it is closed.
\<close>

datatype action = Cancel nat | Install string nat | Go string nat

record scheduler =
  running :: "string \<rightharpoonup> nat"
  contexts :: "(string \<times> bool) list"
  log :: "action list"

definition cancel :: "nat \<Rightarrow> scheduler \<Rightarrow> scheduler" where
  "cancel c st =
     st\<lparr>contexts := (contexts st)[c := (fst (contexts st ! c), True)],
        log := log st @ [Cancel c]\<rparr>"

definition WithCancel :: "string \<Rightarrow> scheduler \<Rightarrow> nat \<times> scheduler" where
  "WithCancel uri st = (length (contexts st), st\<lparr>contexts := contexts st @ [(uri, False)]\<rparr>)"

text \<open>Lines 18-21: \<open>cancel, ok := running[uri]; if ok { cancel() }\<close>.\<close>

definition cancelRunning :: "scheduler \<Rightarrow> string \<Rightarrow> scheduler" where
  "cancelRunning st uri = (case running st uri of Some c \<Rightarrow> cancel c st | None \<Rightarrow> st)"

text \<open>One round of the loop (lines 18-39): cancel the running handle, make the new
  context, store its cancel function in the map, start the goroutine.\<close>

definition diagnosticStep :: "scheduler \<Rightarrow> string \<Rightarrow> scheduler" where
  "diagnosticStep st uri =
     (let st = cancelRunning st uri;
          (c, st) = WithCancel uri st;
          st = st\<lparr>running := (running st)(uri \<mapsto> c), log := log st @ [Install uri c]\<rparr>
      in st\<lparr>log := log st @ [Go uri c]\<rparr>)"

fun diagnosticLoop :: "scheduler \<Rightarrow> string list \<Rightarrow> scheduler" where
  "diagnosticLoop st [] = st"
| "diagnosticLoop st (uri # events) = diagnosticLoop (diagnosticStep st uri) events"

definition diagnostic :: "string list \<Rightarrow> scheduler" where
  "diagnostic events = diagnosticLoop \<lparr>running = Map.empty, contexts = [], log = []\<rparr> events"

text \<open>The outstanding handles of a URI: the contexts made for it whose cancel function
  has not been called.\<close>

definition outstanding :: "scheduler \<Rightarrow> string \<Rightarrow> nat list" where
  "outstanding st uri =
     filter (\<lambda>c. contexts st ! c = (uri, False)) [0..<length (contexts st)]"

section \<open>Example documents\<close>

text \<open>
  Concrete inputs for the statements below. The trees are what the parser and the
  analyzer, which are outside the sources, deliver for the text; they are taken as
  given. Every example text is a single line of the form
  \<open>SELECT <path> FROM t ...\<close>, so the select item spans the bytes 7 to 10 and the table
  name the bytes 16 to 17.
\<close>

definition exUri :: string where
  "exUri = ''file:///query.sql''"

text \<open>The statement, query and select nodes of a text of \<open>n\<close> bytes.\<close>

definition exStatement :: "int \<Rightarrow> ast_node" where
  "exStatement n = AstNode OtherAstNode (Some (0, n)) None"

definition exQuery :: "int \<Rightarrow> ast_node" where
  "exQuery n = AstNode OtherAstNode (Some (0, n)) (Some (exStatement n))"

definition exSelect :: "int \<Rightarrow> ast_node" where
  "exSelect n = AstNode OtherAstNode (Some (0, n)) (Some (exQuery n))"

definition exSelectList :: "int \<Rightarrow> ast_node" where
  "exSelectList n = AstNode OtherAstNode (Some (7, 10)) (Some (exSelect n))"

definition exSelectColumn :: "string list \<Rightarrow> int \<Rightarrow> ast_node" where
  "exSelectColumn names n =
     AstNode (SelectColumnNode (PathExpression names) None ''SelectColumn'') (Some (7, 10))
       (Some (exSelectList n))"

definition exSelectPath :: "string list \<Rightarrow> int \<Rightarrow> ast_node" where
  "exSelectPath names n =
     AstNode (PathExpressionNode names) (Some (7, 10)) (Some (exSelectColumn names n))"

definition exFromClause :: "int \<Rightarrow> int \<Rightarrow> ast_node" where
  "exFromClause e n = AstNode OtherAstNode (Some (11, e)) (Some (exSelect n))"

definition exTablePath :: "int \<Rightarrow> int \<Rightarrow> ast_node" where
  "exTablePath e n =
     AstNode (TablePathExpressionNode (Some [''t''])) (Some (16, e)) (Some (exFromClause e n))"

definition exTableName :: "int \<Rightarrow> int \<Rightarrow> ast_node" where
  "exTableName e n = AstNode (PathExpressionNode [''t'']) (Some (16, 17)) (Some (exTablePath e n))"

definition exWhereClause :: "int \<Rightarrow> ast_node" where
  "exWhereClause n = AstNode OtherAstNode (Some (23, n)) (Some (exSelect n))"

definition exWherePath :: "int \<Rightarrow> ast_node" where
  "exWherePath n = AstNode (PathExpressionNode [''a'', ''y'']) (Some (29, 32)) (Some (exWhereClause n))"

text \<open>The surface tree of \<open>SELECT <path> FROM t ...\<close> without a where clause, in walk
  order; \<open>e\<close> is the end of the from clause, which is the end of the text.\<close>

definition exSurface :: "string list \<Rightarrow> int \<Rightarrow> ast_node list" where
  "exSurface names e =
     [exStatement e, exQuery e, exSelect e, exSelectList e, exSelectColumn names e,
      exSelectPath names e, exFromClause e e, exTablePath e e, exTableName e e]"

definition exColumnX :: Column where
  "exColumnX = \<lparr>col_Name = ''x'', col_TableName = ''t'', col_Type = ''INT64''\<rparr>"

definition exColumnY :: Column where
  "exColumnY = \<lparr>col_Name = ''y'', col_TableName = ''t'', col_Type = ''BOOL''\<rparr>"

text \<open>The parsed file of a text with a single statement: no offset is corrected, and
  the statement's analysis output is the target at every offset.\<close>

definition exParsed :: "ast_node list \<Rightarrow> AnalyzerOutput \<Rightarrow> ParsedFile" where
  "exParsed nodes output =
     \<lparr>Node = nodes, fixTermOffsetForNode = (\<lambda>termOffset. termOffset),
      FindTargetAnalyzeOutput = (\<lambda>termOffset. Some output)\<rparr>"

definition exProject ::
    "string \<Rightarrow> ParsedFile \<Rightarrow> (string \<Rightarrow> string + TableMetadata) \<Rightarrow> Project" where
  "exProject text parsed store =
     \<lparr>cache = [exUri \<mapsto> \<lparr>RawText = text\<rparr>], ParseFile = (\<lambda>uri text. parsed),
      getTableMetadataFromPath = store, ToJSONFields = (\<lambda>schema. Inr ''[]''),
      Unmarshal = (\<lambda>json. Inr []), Marshal = (\<lambda>result. Inr ''[]'')\<rparr>"

text \<open>A store that knows the table \<open>t\<close> with the single field \<open>x\<close>, and a store whose
  every lookup fails.\<close>

definition exTable :: TableMetadata where
  "exTable =
     \<lparr>FullID = ''project:dataset.t'', Description = [],
      CreationTime = ''2024-01-01 00:00:00'', LastModifiedTime = ''2024-01-02 00:00:00'',
      Schema = [\<lparr>fs_Name = ''x'', fs_Type = ''INTEGER'', fs_Description = ''the x''\<rparr>]\<rparr>"

definition exStore :: "string \<Rightarrow> string + TableMetadata" where
  "exStore path = (if path = ''t'' then Inr exTable else Inl ''not found'')"

definition exFailingStore :: "string \<Rightarrow> string + TableMetadata" where
  "exFailingStore path = Inl ''not found''"

text \<open>\<open>SELECT a.x FROM t AS a\<close> (22 bytes): a project scan over the table scan of \<open>t\<close>
  with the alias \<open>a\<close>.\<close>

definition exTextAlias :: string where
  "exTextAlias = ''SELECT a.x FROM t AS a''"

definition exTableScanAlias :: ScanNode where
  "exTableScanAlias = TableScanNode (Some (16, 22)) [exColumnX] ''a''"

definition exOutputAlias :: AnalyzerOutput where
  "exOutputAlias =
     [OtherResolvedNode (Some (0, 22)),
      Scan_Node (ProjectScanNode (Some (0, 22)) [exColumnX] (Some exTableScanAlias)),
      Scan_Node exTableScanAlias]"

definition exProjectAlias :: "(string \<Rightarrow> string + TableMetadata) \<Rightarrow> Project" where
  "exProjectAlias store =
     exProject exTextAlias (exParsed (exSurface [''a'', ''x''] 22) exOutputAlias) store"

text \<open>\<open>SELECT t.x FROM t\<close> (17 bytes): the table scan has no alias.\<close>

definition exTextPlain :: string where
  "exTextPlain = ''SELECT t.x FROM t''"

definition exTableScanPlain :: ScanNode where
  "exTableScanPlain = TableScanNode (Some (16, 17)) [exColumnX] []"

definition exOutputPlain :: AnalyzerOutput where
  "exOutputPlain =
     [OtherResolvedNode (Some (0, 17)),
      Scan_Node (ProjectScanNode (Some (0, 17)) [exColumnX] (Some exTableScanPlain)),
      Scan_Node exTableScanPlain]"

definition exProjectPlain :: Project where
  "exProjectPlain =
     exProject exTextPlain (exParsed (exSurface [''t'', ''x''] 17) exOutputPlain) exStore"

text \<open>\<open>SELECT a.x FROM t AS a WHERE a.y\<close> (32 bytes): a filter scan between the two
  scans, whose filter expression is the column reference \<open>a.y\<close> at the bytes 29 to 32.\<close>

definition exTextWhere :: string where
  "exTextWhere = ''SELECT a.x FROM t AS a WHERE a.y''"

definition exTableScanWhere :: ScanNode where
  "exTableScanWhere = TableScanNode (Some (16, 22)) [exColumnX, exColumnY] ''a''"

definition exOutputWhere :: AnalyzerOutput where
  "exOutputWhere =
     [OtherResolvedNode (Some (0, 32)),
      Scan_Node (ProjectScanNode (Some (0, 32)) [exColumnX]
        (Some (OtherScanNode None [exColumnX, exColumnY]))),
      Scan_Node (OtherScanNode None [exColumnX, exColumnY]),
      Scan_Node exTableScanWhere,
      ColumnRefNode (Some (29, 32)) (Some exColumnY) ''ColumnRef'']"

definition exSurfaceWhere :: "ast_node list" where
  "exSurfaceWhere =
     [exStatement 32, exQuery 32, exSelect 32, exSelectList 32, exSelectColumn [''a'', ''x''] 32,
      exSelectPath [''a'', ''x''] 32, exFromClause 22 32, exTablePath 22 32, exTableName 22 32,
      exWhereClause 32, exWherePath 32]"

definition exProjectWhere :: "(string \<Rightarrow> string + TableMetadata) \<Rightarrow> Project" where
  "exProjectWhere store = exProject exTextWhere (exParsed exSurfaceWhere exOutputWhere) store"

text \<open>Predicates for the statements below. A line is scannable when the scanner
  returns it unchanged: it fits the token buffer and does not end in a carriage return.
  A location range covers an offset when it is present and contains the offset, both
  ends included. A scan node has a width when it has a location range whose width is
  below \<open>math.MaxInt\<close>.\<close>

definition scannable :: "string \<Rightarrow> bool" where
  "scannable l = (length l < MaxScanTokenSize \<and> dropCR l = l)"

definition covers :: "ParseLocationRange option \<Rightarrow> int \<Rightarrow> bool" where
  "covers lRange termOffset =
     (case lRange of
        None \<Rightarrow> False
      | Some (startOffset, endOffset) \<Rightarrow> startOffset \<le> termOffset \<and> termOffset \<le> endOffset)"

definition hasWidth :: "ScanNode \<Rightarrow> bool" where
  "hasWidth node =
     (case ScanRange node of
        None \<Rightarrow> False
      | Some (startOffset, endOffset) \<Rightarrow> endOffset - startOffset < MaxInt)"

text \<open>
  The selection that section 4.4 of the specification describes for the select-column
  step, written from its words for comparison with \<open>narrowLoop\<close>: among the scan nodes
  that have a location range containing the offset, the one of the smallest width, the
  first of them when several have that width.
\<close>

fun specNarrowest :: "ScanNode list \<Rightarrow> int \<Rightarrow> ScanNode option \<Rightarrow> ScanNode option" where
  "specNarrowest [] termOffset best = best"
| "specNarrowest (node # nodes) termOffset best =
     (case ScanRange node of
        None \<Rightarrow> specNarrowest nodes termOffset best
      | Some (startOffset, endOffset) \<Rightarrow>
          (if startOffset \<le> termOffset \<and> termOffset \<le> endOffset \<and>
              (case best of
                 None \<Rightarrow> True
               | Some b \<Rightarrow>
                   (case ScanRange b of
                      None \<Rightarrow> True
                    | Some (s, e) \<Rightarrow> endOffset - startOffset < e - s))
           then specNarrowest nodes termOffset (Some node)
           else specNarrowest nodes termOffset best))"

text \<open>The invariant of the scheduler's loop: the map holds, for each URI, exactly the
  context made for it that has not been cancelled.\<close>

definition sched_inv :: "scheduler \<Rightarrow> bool" where
  "sched_inv st =
     ((\<forall>u c. running st u = Some c \<longrightarrow> c < length (contexts st) \<and> contexts st ! c = (u, False)) \<and>
      (\<forall>c u. c < length (contexts st) \<longrightarrow> contexts st ! c = (u, False) \<longrightarrow> running st u = Some c))"

section \<open>Properties of the Position Mapper\<close>

lemma Split_not_Nil: "Split s \<noteq> []"
  by (induction s) (auto split: list.splits)

lemma Split_append_LF: "Split (a @ LF # b) = Split a @ Split b"
proof (induction a)
  case Nil
  show ?case by simp
next
  case (Cons c a)
  obtain l ls where sp: "Split a = l # ls"
    using Split_not_Nil [of a] by (cases "Split a") auto
  show ?case using Cons sp by simp
qed

text \<open>The bytes a list of lines accounts for: each line and its separator.\<close>

lemma sum_Split: "(\<Sum>l\<leftarrow>Split a. int (length l) + 1) = int (length a) + 1"
proof (induction a)
  case Nil
  show ?case by simp
next
  case (Cons c a)
  obtain l ls where sp: "Split a = l # ls"
    using Split_not_Nil [of a] by (cases "Split a") auto
  show ?case using Cons sp by simp
qed

lemma sum_lines_nonneg: "0 \<le> (\<Sum>l\<leftarrow>ls. int (length l) + 1)"
  by (induction ls) auto

lemma offsetLoop_skip:
  "0 \<le> c \<Longrightarrow>
   offsetLoop (ls @ rest) line ((\<Sum>l\<leftarrow>ls. int (length l) + 1) + c) =
   offsetLoop rest (line + int (length ls)) c"
proof (induction ls arbitrary: line)
  case Nil
  show ?case by simp
next
  case (Cons l ls)
  have "offsetLoop (ls @ rest) (line + 1) ((\<Sum>l\<leftarrow>ls. int (length l) + 1) + c) =
        offsetLoop rest (line + 1 + int (length ls)) c"
    using Cons.IH [OF Cons.prems] .
  moreover have "\<not> (\<Sum>l\<leftarrow>ls. int (length l) + 1) + c < 0"
    using sum_lines_nonneg [of ls] Cons.prems by simp
  ultimately show ?case by (simp add: algebra_simps)
qed

lemma length_Split: "length (Split a) = Suc (length (filter (\<lambda>c. c = LF) a))"
proof (induction a)
  case Nil
  show ?case by simp
next
  case (Cons c a)
  obtain l ls where sp: "Split a = l # ls"
    using Split_not_Nil [of a] by (cases "Split a") auto
  show ?case using Cons sp by simp
qed

text \<open>
  C6, as the code has it. The claim reads: an offset at the position of a line separator
  resolves to character 0 of the next line. The loop of \<open>byteOffsetToPosition\<close> returns
  as soon as \<open>offset < len(l)+1\<close>, which includes \<open>offset = len(l)\<close>: for every text
  \<open>pre @ LF # post\<close>, the offset of that separator (\<open>length pre\<close>) resolves to the line
  the separator ends (as many lines before it as \<open>pre\<close> has separators) at the character
  equal to that line's length, and it is the offset just after the separator that
  resolves to character 0 of the next line.
\<close>

theorem separator_offset:
  "byteOffsetToPosition (pre @ LF # post) (int (length pre)) =
     (\<lparr>Line = int (length (filter (\<lambda>c. c = LF) pre)),
       Character = int (length (last (Split pre)))\<rparr>, True)
   \<and> byteOffsetToPosition (pre @ LF # post) (int (length pre) + 1) =
     (\<lparr>Line = int (length (filter (\<lambda>c. c = LF) pre)) + 1, Character = 0\<rparr>, True)"
proof -
  define bs where "bs = butlast (Split pre)"
  define l where "l = last (Split pre)"
  have sp: "Split pre = bs @ [l]"
    unfolding bs_def l_def using Split_not_Nil [of pre] by simp
  have len: "int (length bs) = int (length (filter (\<lambda>c. c = LF) pre))"
    using length_Split [of pre] sp by simp
  have total: "(\<Sum>x\<leftarrow>bs. int (length x) + 1) + int (length l) = int (length pre)"
    using sum_Split [of pre] sp by simp
  obtain m ms where post: "Split post = m # ms"
    using Split_not_Nil [of post] by (cases "Split post") auto
  have "offsetLoop (bs @ (l # Split post)) 0 ((\<Sum>x\<leftarrow>bs. int (length x) + 1) + int (length l)) =
        offsetLoop (l # Split post) (0 + int (length bs)) (int (length l))"
    by (rule offsetLoop_skip) simp
  then have first: "byteOffsetToPosition (pre @ LF # post) (int (length pre)) =
      (\<lparr>Line = int (length bs), Character = int (length l)\<rparr>, True)"
    using total by (simp add: byteOffsetToPosition_def Split_append_LF sp)
  have "offsetLoop (Split pre @ Split post) 0 ((\<Sum>x\<leftarrow>Split pre. int (length x) + 1) + 0) =
        offsetLoop (Split post) (0 + int (length (Split pre))) 0"
    by (rule offsetLoop_skip) simp
  then have "offsetLoop (Split pre @ Split post) 0 (int (length pre) + 1) =
        offsetLoop (Split post) (int (length (Split pre))) 0"
    using sum_Split [of pre] by simp
  then have second: "byteOffsetToPosition (pre @ LF # post) (int (length pre) + 1) =
      (\<lparr>Line = int (length bs) + 1, Character = 0\<rparr>, True)"
    using post sp by (simp add: byteOffsetToPosition_def Split_append_LF)
  show ?thesis using first second len unfolding l_def by simp
qed

text \<open>C6, counterexample: in the text \<open>ab\ncd\<close> the separator is at offset 2, which
  resolves to line 0, character 2 (the length of \<open>ab\<close>), not to line 1, character 0.\<close>

theorem separator_offset_counterexample:
  "byteOffsetToPosition (''ab'' @ [LF] @ ''cd'') 2 = (\<lparr>Line = 0, Character = 2\<rparr>, True)
   \<and> byteOffsetToPosition (''ab'' @ [LF] @ ''cd'') 2 \<noteq> (\<lparr>Line = 1, Character = 0\<rparr>, True)"
  by (simp add: byteOffsetToPosition_def)

text \<open>
  C3, at the input where the code departs from the claim. The text \<open>a\r\nbc\<close> has the
  lines \<open>a\r\<close> and \<open>bc\<close>; the position line 1, character 1 (between \<open>b\<close> and \<open>c\<close>) is
  inside the text and is no line boundary. The scanner drops the carriage return of the
  first line, so \<open>positionToByteOffset\<close> counts 2 bytes for that line instead of 3 and
  returns 3, the offset of \<open>b\<close>; \<open>byteOffsetToPosition\<close>, which splits on the newline
  only, maps 3 back to line 1, character 0.
\<close>

theorem crlf_round_trip_fails:
  "positionToByteOffset (''a'' @ [CR, LF] @ ''bc'') \<lparr>Line = 1, Character = 1\<rparr> = 3
   \<and> byteOffsetToPosition (''a'' @ [CR, LF] @ ''bc'') 3 = (\<lparr>Line = 1, Character = 0\<rparr>, True)"
  by (simp add: positionToByteOffset_def byteOffsetToPosition_def NewScanner_def Scan_def
      Text_def dropCR_def MaxScanTokenSize_def)

lemma Split_no_LF: "LF \<notin> set l \<Longrightarrow> Split l = [l]"
  by (induction l) auto

lemma Split_Cons_decompose:
  "Split u = l # ls \<Longrightarrow> ls \<noteq> [] \<Longrightarrow> \<exists>rest. u = l @ LF # rest \<and> Split rest = ls \<and> LF \<notin> set l"
proof (induction u arbitrary: l)
  case Nil
  then show ?case by simp
next
  case (Cons c u)
  show ?case
  proof (cases "c = LF")
    case True
    then have "l = []" "Split u = ls" using Cons.prems by auto
    then show ?thesis using True by auto
  next
    case False
    obtain m ms where sp: "Split u = m # ms"
      using Split_not_Nil [of u] by (cases "Split u") auto
    then have l: "l = c # m" and ms: "ms = ls" using Cons.prems False by auto
    obtain rest where "u = m @ LF # rest" "Split rest = ls" "LF \<notin> set m"
      using Cons.IH [of m] sp ms Cons.prems(2) by auto
    then show ?thesis using l False by auto
  qed
qed

lemma Scan_line:
  assumes "\<not> tooLong s" and "unread s = l @ LF # rest" and "LF \<notin> set l"
      and "length l < MaxScanTokenSize"
  shows "Scan s = s\<lparr>token := dropCR l, unread := rest\<rparr>"
proof -
  have "takeWhile (\<lambda>c. c \<noteq> LF) (l @ LF # rest) = l"
    using assms(3) by (induction l) auto
  then show ?thesis using assms by (simp add: Scan_def Let_def)
qed

lemma scanLoop_lines:
  "\<not> tooLong s \<Longrightarrow> n < length (Split (unread s)) \<Longrightarrow>
   (\<forall>l \<in> set (take n (Split (unread s))). scannable l) \<Longrightarrow>
   scanLoop n s off = off + (\<Sum>l\<leftarrow>take n (Split (unread s)). int (length l) + 1)"
proof (induction n arbitrary: s off)
  case 0
  then show ?case by simp
next
  case (Suc n)
  obtain l ls where sp: "Split (unread s) = l # ls"
    using Split_not_Nil [of "unread s"] by (cases "Split (unread s)") auto
  have ls: "ls \<noteq> []" using Suc.prems(2) sp by auto
  obtain rest where u: "unread s = l @ LF # rest" and rest: "Split rest = ls" and nl: "LF \<notin> set l"
    using Split_Cons_decompose [OF sp ls] by auto
  have sc: "scannable l" using Suc.prems(3) sp by simp
  have step: "Scan s = s\<lparr>token := dropCR l, unread := rest\<rparr>"
    using Scan_line [OF Suc.prems(1) u nl] sc by (simp add: scannable_def)
  let ?s' = "s\<lparr>token := dropCR l, unread := rest\<rparr>"
  have "scanLoop n ?s' (off + (int (length l) + 1)) =
        off + (int (length l) + 1) + (\<Sum>l\<leftarrow>take n (Split (unread ?s')). int (length l) + 1)"
  proof (rule Suc.IH)
    show "\<not> tooLong ?s'" using Suc.prems(1) by simp
    show "n < length (Split (unread ?s'))" using Suc.prems(2) sp rest by simp
    show "\<forall>l \<in> set (take n (Split (unread ?s'))). scannable l"
      using Suc.prems(3) sp rest by simp
  qed
  then show ?case
    using step sc sp rest by (simp add: Text_def scannable_def)
qed

text \<open>
  The round trip where the scanner and the split agree. Let the position be inside the
  text (its line exists, its character is between 0 and the length of that line, the
  position just past the last character included), and let every line before the
  position's line be scannable. Then \<open>byteOffsetToPosition\<close> maps the offset that
  \<open>positionToByteOffset\<close> computes back to the position, at every such position.
\<close>

theorem round_trip_scannable_lines:
  assumes line: "0 \<le> Line P" "nat (Line P) < length (Split T)"
      and char: "0 \<le> Character P" "Character P \<le> int (length (Split T ! nat (Line P)))"
      and before: "\<forall>l \<in> set (take (nat (Line P)) (Split T)). scannable l"
  shows "byteOffsetToPosition T (positionToByteOffset T P) = (P, True)"
proof -
  define n where "n = nat (Line P)"
  define c where "c = Character P"
  have off: "positionToByteOffset T P = (\<Sum>l\<leftarrow>take n (Split T). int (length l) + 1) + c"
    using scanLoop_lines [of "NewScanner T" n 0] line(2) before
    by (simp add: positionToByteOffset_def NewScanner_def n_def c_def)
  have sp: "Split T = take n (Split T) @ (Split T ! n) # drop (Suc n) (Split T)"
    using line(2) by (simp add: n_def id_take_nth_drop [symmetric])
  have "offsetLoop (take n (Split T) @ (Split T ! n) # drop (Suc n) (Split T)) 0
          ((\<Sum>l\<leftarrow>take n (Split T). int (length l) + 1) + c) =
        offsetLoop ((Split T ! n) # drop (Suc n) (Split T)) (0 + int (length (take n (Split T)))) c"
    by (rule offsetLoop_skip) (use char(1) in \<open>simp add: c_def\<close>)
  then have "offsetLoop (Split T) 0 ((\<Sum>l\<leftarrow>take n (Split T). int (length l) + 1) + c) =
      (\<lparr>Line = int n, Character = c\<rparr>, True)"
    using sp char(2) line(2) by (simp add: n_def c_def)
  then show ?thesis
    using line(1) by (simp add: byteOffsetToPosition_def off n_def c_def)
qed

text \<open>Witness: the position after \<open>cd\<close> in the text \<open>ab\ncd\<close>.\<close>

theorem round_trip_scannable_lines_witness:
  "byteOffsetToPosition (''ab'' @ [LF] @ ''cd'')
     (positionToByteOffset (''ab'' @ [LF] @ ''cd'') \<lparr>Line = 1, Character = 2\<rparr>) =
     (\<lparr>Line = 1, Character = 2\<rparr>, True)"
proof -
  have sp: "Split (''ab'' @ [LF] @ ''cd'') = [''ab'', ''cd'']" by simp
  show ?thesis
    by (rule round_trip_scannable_lines)
       (simp_all add: sp scannable_def MaxScanTokenSize_def dropCR_def)
qed

section \<open>Properties of the Node Locator\<close>

lemma find_snoc:
  "find P (xs @ [x]) = (case find P xs of None \<Rightarrow> (if P x then Some x else None) | Some y \<Rightarrow> Some y)"
  by (induction xs) auto

lemma searchAstLoop_find:
  "searchAstLoop T nodes termOffset targetNode =
     (case find (\<lambda>n. assertT T n \<and> covers (ParseLocationRange n) termOffset) (rev nodes) of
        None \<Rightarrow> targetNode
      | Some n \<Rightarrow> Some n)"
  by (induction T nodes termOffset targetNode rule: searchAstLoop.induct)
     (auto simp: covers_def find_snoc split: option.splits)

text \<open>
  \<open>searchAstNode[T]\<close> returns the last node in walk order that is of kind \<open>T\<close> and whose
  location range covers the offset, and not-found when there is none; a node without a
  location range is never returned.
\<close>

theorem searchAstNode_last_match:
  "searchAstNode T nodes termOffset =
     find (\<lambda>n. assertT T n \<and> covers (ParseLocationRange n) termOffset) (rev nodes)"
  by (simp add: searchAstNode_def searchAstLoop_find split: option.splits)

lemma searchResolvedLoop_find:
  "searchResolvedLoop T nodes termOffset targetNode =
     (case find (\<lambda>n. assertR T n \<and> covers (rastRange n) termOffset) (rev nodes) of
        None \<Rightarrow> targetNode
      | Some n \<Rightarrow> Some n)"
  by (induction T nodes termOffset targetNode rule: searchResolvedLoop.induct)
     (auto simp: covers_def find_snoc split: option.splits)

text \<open>\<open>searchResolvedAstNode[T]\<close> does the same on the resolved tree.\<close>

theorem searchResolvedAstNode_last_match:
  "searchResolvedAstNode T output termOffset =
     find (\<lambda>n. assertR T n \<and> covers (rastRange n) termOffset) (rev output)"
  by (simp add: searchResolvedAstNode_def searchResolvedLoop_find split: option.splits)

text \<open>
  C4, as the code has it. The claim reads: \<open>lookupNode\<close> walks strictly upward and never
  returns the starting node. The source asserts the kind of \<open>n\<close> itself before it follows
  \<open>n.Parent()\<close>: \<open>lookupNode[T]\<close> returns the first node of kind \<open>T\<close> on the chain
  that starts with the node itself and continues with its parent, its grandparent, up
  to the root, and not-found when the chain has no node of kind \<open>T\<close> (in particular for
  the nil node).
\<close>

theorem lookupNode_first_on_chain: "lookupNode T n = find (assertT T) (chain n)"
  by (induction T n rule: lookupNode.induct) simp_all

text \<open>C4, counterexample: the path expression \<open>t\<close> of the example text is itself of
  kind path expression; \<open>lookupNode\<close> started at it returns that very node, not its parent
  and not not-found.\<close>

theorem lookupNode_returns_start_counterexample:
  "lookupNode PathExpressionT (Some (exTableName 22 22)) = Some (exTableName 22 22)
   \<and> lookupNode PathExpressionT (Some (exTableName 22 22)) \<noteq> None
   \<and> lookupNode PathExpressionT (Some (exTableName 22 22)) \<noteq> Parent (exTableName 22 22)"
  by (simp add: exTableName_def exTablePath_def)

section \<open>Properties of the scan selection\<close>

text \<open>
  C2, at an input where the code departs from the claim. In the resolved tree of
  \<open>SELECT a.x FROM t AS a\<close> the project scan spans the bytes 0 to 22 and the table scan
  the bytes 16 to 22. With the cursor at offset 9 the project scan is the only scan whose
  span contains the offset, hence the narrowest such; the loop of the source selects the
  table scan. The loop never compares \<open>termOffset\<close> with a span and never assigns
  \<open>mostNarrowWidth\<close>, so it selects the last scan node that has a location range.
\<close>

theorem narrow_scan_not_selected:
  "narrowLoop (scanNodesOf exOutputAlias) MaxInt None = Some exTableScanAlias
   \<and> ScanRange exTableScanAlias = Some (16, 22)
   \<and> specNarrowest (scanNodesOf exOutputAlias) 9 None =
       Some (ProjectScanNode (Some (0, 22)) [exColumnX] (Some exTableScanAlias))"
  by (simp add: exOutputAlias_def exTableScanAlias_def MaxInt_def)

lemma narrowLoop_find:
  "narrowLoop nodes MaxInt targetScanNode =
     (case find hasWidth (rev nodes) of None \<Rightarrow> targetScanNode | Some node \<Rightarrow> Some node)"
  by (induction nodes MaxInt targetScanNode rule: narrowLoop.induct)
     (auto simp: hasWidth_def find_snoc Let_def split: option.splits)

text \<open>
  The loop that chooses \<open>targetScanNode\<close> returns the last scan node in walk order that
  has a width, whatever the widths and whatever the offset, and nil when no scan node
  has one.
\<close>

theorem narrowLoop_selects_last_ranged:
  "narrowLoop nodes MaxInt None = find hasWidth (rev nodes)"
  by (simp add: narrowLoop_find split: option.splits)

text \<open>
  \<open>getSelectColumnName\<close> returns the dotted path of the select item's expression when
  that is a path expression and fails otherwise; the result does not depend on the
  item's alias.
\<close>

theorem getSelectColumnName_ignores_alias:
  "getSelectColumnName (AstNode (SelectColumnNode expression alias dbg) r parent) =
     (case expression of PathExpression names \<Rightarrow> Some (Join names ''.'') | OtherExpression \<Rightarrow> None)"
  by (cases expression) simp_all

section \<open>Properties of the Document Cache and the hover on it\<close>

text \<open>
  C8, at an input where the code departs from the claim. After \<open>DeleteFile\<close> the cache
  has no entry for the URI; \<open>GetFile\<close> checks the pointer that \<open>cache.Get\<close> returns and
  reports not-found, whereas \<open>TermDocument\<close> reads \<open>sql.RawText\<close> through the nil pointer
  and panics.
\<close>

theorem hover_uncached_uri_panics:
  "cache_Get (cache (DeleteFile (exProjectAlias exStore) exUri)) exUri = None
   \<and> TermDocument (DeleteFile (exProjectAlias exStore) exUri) exUri \<lparr>Line = 0, Character = 9\<rparr>
       = Inl (Panic nilDereference)
   \<and> GetFile (DeleteFile (exProjectAlias exStore) exUri) exUri = ([], False)"
  by (simp add: TermDocument_def DeleteFile_def cache_Delete_def cache_Get_def GetFile_def)

section \<open>Properties of the Diagnostic Scheduler\<close>

lemma diagnosticStep_None:
  "running st uri = None \<Longrightarrow>
   diagnosticStep st uri =
     st\<lparr>running := (running st)(uri \<mapsto> length (contexts st)),
        contexts := contexts st @ [(uri, False)],
        log := log st @ [Install uri (length (contexts st)), Go uri (length (contexts st))]\<rparr>"
  by (simp add: diagnosticStep_def cancelRunning_def WithCancel_def)

lemma diagnosticStep_Some:
  "running st uri = Some c \<Longrightarrow>
   diagnosticStep st uri =
     st\<lparr>running := (running st)(uri \<mapsto> length (contexts st)),
        contexts := (contexts st)[c := (fst (contexts st ! c), True)] @ [(uri, False)],
        log := log st @ [Cancel c, Install uri (length (contexts st)), Go uri (length (contexts st))]\<rparr>"
  by (simp add: diagnosticStep_def cancelRunning_def WithCancel_def cancel_def)

lemma sched_inv_step:
  assumes inv: "sched_inv st"
  shows "sched_inv (diagnosticStep st uri)"
proof -
  let ?n = "length (contexts st)"
  have old1: "\<And>u c. running st u = Some c \<Longrightarrow> c < ?n \<and> contexts st ! c = (u, False)"
    using inv unfolding sched_inv_def by blast
  have old2: "\<And>c u. c < ?n \<Longrightarrow> contexts st ! c = (u, False) \<Longrightarrow> running st u = Some c"
    using inv unfolding sched_inv_def by blast
  define cs where "cs = (case running st uri of
      None \<Rightarrow> contexts st | Some c \<Rightarrow> (contexts st)[c := (fst (contexts st ! c), True)])"
  have len: "length cs = ?n"
    by (simp add: cs_def split: option.splits)
  have r': "running (diagnosticStep st uri) = (running st)(uri \<mapsto> ?n)"
    by (cases "running st uri") (simp_all add: diagnosticStep_None diagnosticStep_Some)
  have c': "contexts (diagnosticStep st uri) = cs @ [(uri, False)]"
    by (cases "running st uri") (simp_all add: diagnosticStep_None diagnosticStep_Some cs_def)
  have other: "cs ! c = contexts st ! c" if "c < ?n" and "running st uri \<noteq> Some c" for c
    using that by (auto simp: cs_def nth_list_update split: option.splits)
  have cancelled: "snd (cs ! c) = True" if "running st uri = Some c" for c
    using that old1 [OF that] by (simp add: cs_def)
  have new1: "c < length (cs @ [(uri, False)]) \<and> (cs @ [(uri, False)]) ! c = (u, False)"
    if "((running st)(uri \<mapsto> ?n)) u = Some c" for u c
  proof (cases "u = uri")
    case True
    then have "c = ?n" using that by simp
    then show ?thesis using True len by (simp add: nth_append)
  next
    case False
    then have r: "running st u = Some c" using that by simp
    then have "running st uri \<noteq> Some c" using old1 [OF r] old1 [of uri c] False by auto
    then show ?thesis using old1 [OF r] other [of c] len by (simp add: nth_append)
  qed
  have new2: "((running st)(uri \<mapsto> ?n)) u = Some c"
    if "c < length (cs @ [(uri, False)])" and "(cs @ [(uri, False)]) ! c = (u, False)" for c u
  proof (cases "c = ?n")
    case True
    then show ?thesis using that len by (simp add: nth_append)
  next
    case False
    then have lt: "c < ?n" using that(1) len by simp
    then have e: "cs ! c = (u, False)" using that(2) len by (simp add: nth_append)
    have nc: "running st uri \<noteq> Some c"
    proof
      assume "running st uri = Some c"
      from cancelled [OF this] e show False by simp
    qed
    then have "contexts st ! c = (u, False)" using other [OF lt] e by simp
    then have r: "running st u = Some c" by (rule old2 [OF lt])
    then have "u \<noteq> uri" using nc by auto
    then show ?thesis using r by simp
  qed
  show ?thesis
    unfolding sched_inv_def r' c' using new1 new2 by blast
qed

lemma sched_inv_loop: "sched_inv st \<Longrightarrow> sched_inv (diagnosticLoop st events)"
  by (induction events arbitrary: st) (auto simp: sched_inv_step)

lemma sched_inv_diagnostic: "sched_inv (diagnostic events)"
  unfolding diagnostic_def by (rule sched_inv_loop) (simp add: sched_inv_def)

lemma diagnosticLoop_append:
  "diagnosticLoop st (xs @ ys) = diagnosticLoop (diagnosticLoop st xs) ys"
  by (induction xs arbitrary: st) auto

lemma diagnostic_snoc: "diagnostic (events @ [uri]) = diagnosticStep (diagnostic events) uri"
  by (simp add: diagnostic_def diagnosticLoop_append)

lemma filter_upt_none: "(\<forall>c<n. \<not> P c) \<Longrightarrow> filter P [0..<n] = []"
  by (induction n) auto

lemma filter_upt_single:
  assumes "c < n" and "P c" and uniq: "\<And>c'. c' < n \<Longrightarrow> P c' \<Longrightarrow> c' = c"
  shows "filter P [0..<n] = [c]"
proof -
  have "[0..<n] = [0..<c] @ [c..<n]"
    using assms(1) upt_add_eq_append [of 0 c "n - c"] by simp
  moreover have "[c..<n] = c # [Suc c..<n]"
    using assms(1) by (simp add: upt_conv_Cons)
  ultimately have split: "[0..<n] = [0..<c] @ c # [Suc c..<n]"
    by simp
  have before: "filter P [0..<c] = []"
  proof (rule filter_upt_none, intro allI impI)
    fix c' assume "c' < c"
    then show "\<not> P c'" using uniq [of c'] assms(1) by auto
  qed
  have after: "filter P [Suc c..<n] = []"
  proof -
    have "\<forall>x\<in>set [Suc c..<n]. \<not> P x"
    proof
      fix x assume "x \<in> set [Suc c..<n]"
      then have "c < x" "x < n" by auto
      then show "\<not> P x" using uniq [of x] by auto
    qed
    then show ?thesis by (simp add: filter_empty_conv)
  qed
  show ?thesis using split before after assms(2) by simp
qed

lemma outstanding_inv:
  assumes "sched_inv st"
  shows "outstanding st uri = (case running st uri of None \<Rightarrow> [] | Some c \<Rightarrow> [c])"
proof (cases "running st uri")
  case None
  have "filter (\<lambda>c. contexts st ! c = (uri, False)) [0..<length (contexts st)] = []"
  proof (rule filter_upt_none, intro allI impI)
    fix c assume "c < length (contexts st)"
    show "contexts st ! c \<noteq> (uri, False)"
    proof
      assume "contexts st ! c = (uri, False)"
      then have "running st uri = Some c"
        using assms \<open>c < length (contexts st)\<close> unfolding sched_inv_def by blast
      then show False using None by simp
    qed
  qed
  then show ?thesis using None by (simp add: outstanding_def)
next
  case (Some c)
  have "filter (\<lambda>c. contexts st ! c = (uri, False)) [0..<length (contexts st)] = [c]"
  proof (rule filter_upt_single)
    show "c < length (contexts st)" using assms Some unfolding sched_inv_def by blast
    show "contexts st ! c = (uri, False)" using assms Some unfolding sched_inv_def by blast
  next
    fix c' assume "c' < length (contexts st)" and "contexts st ! c' = (uri, False)"
    then have "running st uri = Some c'" using assms unfolding sched_inv_def by blast
    then show "c' = c" using Some by simp
  qed
  then show ?thesis using Some by (simp add: outstanding_def)
qed

lemma length_filter_mono:
  "(\<And>x. x \<in> set xs \<Longrightarrow> P x \<Longrightarrow> Q x) \<Longrightarrow> length (filter P xs) \<le> length (filter Q xs)"
  by (induction xs) auto

lemma outstanding_cancelRunning:
  "length (outstanding (cancelRunning st uri) u) \<le> length (outstanding st u)"
proof (cases "running st uri")
  case None
  then show ?thesis by (simp add: cancelRunning_def)
next
  case (Some c)
  have "length (filter (\<lambda>i. (contexts st)[c := (fst (contexts st ! c), True)] ! i = (u, False))
                  [0..<length (contexts st)])
        \<le> length (filter (\<lambda>i. contexts st ! i = (u, False)) [0..<length (contexts st)])"
  proof (rule length_filter_mono)
    fix i
    assume "i \<in> set [0..<length (contexts st)]"
       and a: "(contexts st)[c := (fst (contexts st ! c), True)] ! i = (u, False)"
    then have i: "i < length (contexts st)" by simp
    have "i \<noteq> c" using a i by auto
    then show "contexts st ! i = (u, False)" using a by simp
  qed
  then show ?thesis using Some by (simp add: cancelRunning_def cancel_def outstanding_def)
qed

lemma outstanding_cancelRunning_uri:
  assumes "sched_inv st"
  shows "outstanding (cancelRunning st uri) uri = []"
proof -
  have inv: "\<And>i u. i < length (contexts st) \<Longrightarrow> contexts st ! i = (u, False) \<Longrightarrow> running st u = Some i"
    using assms unfolding sched_inv_def by blast
  have "contexts (cancelRunning st uri) ! i \<noteq> (uri, False)"
    if "i < length (contexts (cancelRunning st uri))" for i
  proof (cases "running st uri")
    case None
    then have cs: "contexts (cancelRunning st uri) = contexts st"
      by (simp add: cancelRunning_def)
    show ?thesis
    proof
      assume "contexts (cancelRunning st uri) ! i = (uri, False)"
      then have "running st uri = Some i"
        using inv [of i uri] that unfolding cs by simp
      then show False using None by simp
    qed
  next
    case (Some c)
    then have cs: "contexts (cancelRunning st uri) = (contexts st)[c := (fst (contexts st ! c), True)]"
      by (simp add: cancelRunning_def cancel_def)
    have i: "i < length (contexts st)"
      using that unfolding cs by simp
    show ?thesis
    proof
      assume a: "contexts (cancelRunning st uri) ! i = (uri, False)"
      have "i \<noteq> c"
      proof
        assume "i = c"
        then have "(contexts st)[c := (fst (contexts st ! c), True)] ! i = (fst (contexts st ! c), True)"
          using i by simp
        then show False using a unfolding cs by simp
      qed
      then have "contexts st ! i = (uri, False)"
        using a unfolding cs by simp
      then have "running st uri = Some i"
        by (rule inv [OF i])
      then show False using Some \<open>i \<noteq> c\<close> by simp
    qed
  qed
  then show ?thesis
    unfolding outstanding_def by (intro filter_upt_none) blast
qed

lemma outstanding_WithCancel:
  "outstanding (snd (WithCancel uri st)) u =
     outstanding st u @ (if u = uri then [length (contexts st)] else [])"
proof -
  have "filter (\<lambda>c. (contexts st @ [(uri, False)]) ! c = (u, False)) [0..<length (contexts st)] =
        filter (\<lambda>c. contexts st ! c = (u, False)) [0..<length (contexts st)]"
    by (rule filter_cong) (auto simp: nth_append)
  then show ?thesis
    by (simp add: outstanding_def WithCancel_def)
qed

text \<open>
  C7. After any sequence of events, the outstanding handles of a URI (the contexts made
  for it and not cancelled) are exactly the handle the map holds for it, if any: at most
  one. Within the round for the next event there is at most one as well, after the
  cancellation and after the new context is made. When the event is for a URI that has
  a handle \<open>c\<close>, the round first calls the cancel function \<open>c\<close>, then stores the handle of
  the new context in the map, then starts the goroutine; afterwards \<open>c\<close> is cancelled,
  the map holds the new handle, and the new handle is the only outstanding one of the
  URI.
\<close>

theorem one_outstanding_handle_per_uri:
  "outstanding (diagnostic events) u =
     (case running (diagnostic events) u of None \<Rightarrow> [] | Some c \<Rightarrow> [c])
   \<and> length (outstanding (cancelRunning (diagnostic events) uri) u) \<le> 1
   \<and> length (outstanding (snd (WithCancel uri (cancelRunning (diagnostic events) uri))) u) \<le> 1
   \<and> (running (diagnostic events) uri = Some c \<longrightarrow>
        log (diagnostic (events @ [uri])) =
          log (diagnostic events) @
            [Cancel c, Install uri (length (contexts (diagnostic events))),
             Go uri (length (contexts (diagnostic events)))]
        \<and> c < length (contexts (diagnostic events))
        \<and> contexts (diagnostic (events @ [uri])) ! c = (uri, True)
        \<and> running (diagnostic (events @ [uri])) uri = Some (length (contexts (diagnostic events)))
        \<and> outstanding (diagnostic (events @ [uri])) uri = [length (contexts (diagnostic events))])"
proof (intro conjI impI)
  define st where "st = diagnostic events"
  have inv: "sched_inv st" unfolding st_def by (rule sched_inv_diagnostic)
  have one: "outstanding st v = (case running st v of None \<Rightarrow> [] | Some c \<Rightarrow> [c])" for v
    by (rule outstanding_inv [OF inv])
  have le: "length (outstanding st v) \<le> 1" for v
    unfolding one by (simp split: option.splits)
  have mid: "length (outstanding (cancelRunning st uri) u) \<le> 1"
    using outstanding_cancelRunning [of st uri u] le [of u] by simp
  have made: "length (outstanding (snd (WithCancel uri (cancelRunning st uri))) u) \<le> 1"
  proof (cases "u = uri")
    case True
    then show ?thesis
      by (simp add: outstanding_WithCancel outstanding_cancelRunning_uri [OF inv])
  next
    case False
    then show ?thesis using mid by (simp add: outstanding_WithCancel)
  qed
  show "outstanding (diagnostic events) u =
     (case running (diagnostic events) u of None \<Rightarrow> [] | Some c \<Rightarrow> [c])"
    using one [of u] unfolding st_def .
  show "length (outstanding (cancelRunning (diagnostic events) uri) u) \<le> 1"
    using mid unfolding st_def .
  show "length (outstanding (snd (WithCancel uri (cancelRunning (diagnostic events) uri))) u) \<le> 1"
    using made unfolding st_def .
next
  assume r: "running (diagnostic events) uri = Some c"
  define st' where "st' = diagnostic (events @ [uri])"
  define st where "st = diagnostic events"
  have r0: "running st uri = Some c" using r by (simp add: st_def)
  have c: "c < length (contexts st)" "contexts st ! c = (uri, False)"
    using sched_inv_diagnostic [of events] r0 unfolding sched_inv_def st_def by blast+
  have step: "st' = diagnosticStep st uri"
    unfolding st'_def st_def by (rule diagnostic_snoc)
  have l: "log st' = log st @ [Cancel c, Install uri (length (contexts st)), Go uri (length (contexts st))]"
    unfolding step diagnosticStep_Some [OF r0] by simp
  have k: "contexts st' ! c = (uri, True)"
    unfolding step diagnosticStep_Some [OF r0] using c by (simp add: nth_append)
  have run: "running st' uri = Some (length (contexts st))"
    unfolding step diagnosticStep_Some [OF r0] by simp
  have "sched_inv st'" unfolding st'_def by (rule sched_inv_diagnostic)
  from outstanding_inv [OF this, of uri] run
  have out: "outstanding st' uri = [length (contexts st)]" by simp
  show "log (diagnostic (events @ [uri])) =
          log (diagnostic events) @
            [Cancel c, Install uri (length (contexts (diagnostic events))),
             Go uri (length (contexts (diagnostic events)))]"
    using l unfolding st_def st'_def .
  show "c < length (contexts (diagnostic events))" using c(1) unfolding st_def .
  show "contexts (diagnostic (events @ [uri])) ! c = (uri, True)"
    using k unfolding st'_def .
  show "running (diagnostic (events @ [uri])) uri = Some (length (contexts (diagnostic events)))"
    using run unfolding st_def st'_def .
  show "outstanding (diagnostic (events @ [uri])) uri = [length (contexts (diagnostic events))]"
    using out unfolding st_def st'_def .
qed

text \<open>C7, witness: the events \<open>a.sql\<close>, \<open>b.sql\<close> and then \<open>a.sql\<close> again.\<close>

theorem one_outstanding_handle_per_uri_witness:
  "running (diagnostic [''a.sql'', ''b.sql'']) ''a.sql'' = Some 0
   \<and> outstanding (diagnostic [''a.sql'', ''b.sql'']) ''a.sql'' = [0]
   \<and> log (diagnostic [''a.sql'', ''b.sql'', ''a.sql'']) =
       [Install ''a.sql'' 0, Go ''a.sql'' 0, Install ''b.sql'' 1, Go ''b.sql'' 1,
        Cancel 0, Install ''a.sql'' 2, Go ''a.sql'' 2]
   \<and> outstanding (diagnostic [''a.sql'', ''b.sql'', ''a.sql'']) ''a.sql'' = [2]"
proof -
  have r: "running (diagnostic [''a.sql'', ''b.sql'']) ''a.sql'' = Some 0"
    by (simp add: diagnostic_def diagnosticStep_def cancelRunning_def WithCancel_def cancel_def)
  have l: "log (diagnostic [''a.sql'', ''b.sql'']) =
      [Install ''a.sql'' 0, Go ''a.sql'' 0, Install ''b.sql'' 1, Go ''b.sql'' 1]"
    by (simp add: diagnostic_def diagnosticStep_def cancelRunning_def WithCancel_def cancel_def)
  have n: "length (contexts (diagnostic [''a.sql'', ''b.sql''])) = 2"
    by (simp add: diagnostic_def diagnosticStep_def cancelRunning_def WithCancel_def cancel_def)
  show ?thesis
    using one_outstanding_handle_per_uri [of "[''a.sql'', ''b.sql'']" "''a.sql''" "''a.sql''" 0] r l n
    by simp
qed

section \<open>Properties of the Hover Resolver\<close>

text \<open>The definitions of the examples and of the hover, for evaluating them.\<close>

lemmas ex_defs =
  exUri_def exStatement_def exQuery_def exSelect_def exSelectList_def exSelectColumn_def
  exSelectPath_def exFromClause_def exTablePath_def exTableName_def exWhereClause_def
  exWherePath_def exSurface_def exColumnX_def exColumnY_def exParsed_def exProject_def
  exTable_def exStore_def exFailingStore_def exTextAlias_def exTableScanAlias_def
  exOutputAlias_def exProjectAlias_def exTextPlain_def exTableScanPlain_def exOutputPlain_def
  exProjectPlain_def exTextWhere_def exTableScanWhere_def exOutputWhere_def exSurfaceWhere_def
  exProjectWhere_def

lemmas hover_defs =
  cache_Get_def targetNodeOf_def termOffsetOf_def outputOf_def positionToByteOffset_def
  searchAstNode_def searchResolvedAstNode_def tableStep_def functionCallStep_def
  getStructFieldStep_def columnRefStep_def selectColumnStep_def createTableMarkedString_def
  columnMarkedString_def getSelectColumnNodeToAnalyzedOutputCoumnNode_def
  buildBigQueryTableMetadataMarkedString_def MaxInt_def HasPrefix_def TrimPrefix_def Errorf_def

text \<open>\<open>TermDocument\<close> for a cached document in which a path expression is found at the
  offset: the chain of the strategies.\<close>

lemma TermDocument_chain:
  assumes "cache_Get (cache p) uri = Some sql"
      and "targetNodeOf p uri sql position = Some targetNode"
  shows "TermDocument p uri position =
     (case tableStep p targetNode of
        Some r \<Rightarrow> r
      | None \<Rightarrow>
          (case outputOf p uri sql position of
             None \<Rightarrow> Inr []
           | Some output \<Rightarrow>
               (case functionCallStep output (termOffsetOf p uri sql position) of
                  Some r \<Rightarrow> r
                | None \<Rightarrow>
                    (case getStructFieldStep output (termOffsetOf p uri sql position) of
                       Some r \<Rightarrow> r
                     | None \<Rightarrow>
                         (case columnRefStep p output (termOffsetOf p uri sql position) of
                            Some r \<Rightarrow> r
                          | None \<Rightarrow>
                              selectColumnStep p output targetNode
                                (termOffsetOf p uri sql position))))))"
proof -
  have "searchAstNode PathExpressionT (Node (ParseFile p uri (RawText sql)))
          (fixTermOffsetForNode (ParseFile p uri (RawText sql))
            (positionToByteOffset (RawText sql) position)) = Some targetNode"
    using assms(2) unfolding targetNodeOf_def termOffsetOf_def .
  then show ?thesis
    unfolding TermDocument_def outputOf_def termOffsetOf_def Let_def
    using assms(1) by simp
qed


lemma columnRefStep_found:
  assumes "searchResolvedAstNode ColumnRefT output termOffset = Some (ColumnRefNode r (Some column) term)"
  shows "columnRefStep p output termOffset =
     (case columnMarkedString p column of Some result \<Rightarrow> Some (Inr result) | None \<Rightarrow> None)"
  using assms by (simp add: columnRefStep_def)

lemma columnMarkedString_lookup_fails:
  assumes "getTableMetadataFromPath p (col_TableName column) = Inl err"
  shows "columnMarkedString p column =
     Some [\<lparr>Language = ''markdown'', Value = col_Name column @ '': '' @ col_Type column\<rparr>]"
  using assms by (simp add: columnMarkedString_def)

lemma columnMarkedString_no_field:
  assumes "getTableMetadataFromPath p (col_TableName column) = Inr tableMetadata"
      and "find (\<lambda>c. col_Name column = fs_Name c) (Schema tableMetadata) = None"
  shows "columnMarkedString p column = None"
  using assms by (simp add: columnMarkedString_def)



text \<open>
  C5, as the code has it. The claim reads: in the column-reference step the hover renders
  the degraded block when the lookup fails and also when the lookup succeeds but no
  schema field has the column's name. Let the column-reference step be reached and a
  column reference with a resolved column be found. When the lookup fails, the hover
  is the degraded block \<open>name: type\<close>. When the lookup succeeds and no schema field has
  the column's name, the loop over the schema ends without a return and control leaves
  the step: the hover is whatever the select-column step returns, which is empty when
  the located node has no select column above it.
\<close>

theorem column_step_degrades_or_falls_through:
  assumes cached: "cache_Get (cache p) uri = Some sql"
      and target: "targetNodeOf p uri sql position = Some targetNode"
      and table: "tableStep p targetNode = None"
      and out: "outputOf p uri sql position = Some output"
      and call: "functionCallStep output (termOffsetOf p uri sql position) = None"
      and field: "getStructFieldStep output (termOffsetOf p uri sql position) = None"
      and ref: "searchResolvedAstNode ColumnRefT output (termOffsetOf p uri sql position) =
                  Some (ColumnRefNode r (Some column) term)"
  shows "(getTableMetadataFromPath p (col_TableName column) = Inl err \<longrightarrow>
          TermDocument p uri position =
            Inr [\<lparr>Language = ''markdown'', Value = col_Name column @ '': '' @ col_Type column\<rparr>])
       \<and> (getTableMetadataFromPath p (col_TableName column) = Inr tableMetadata \<longrightarrow>
          find (\<lambda>c. col_Name column = fs_Name c) (Schema tableMetadata) = None \<longrightarrow>
          TermDocument p uri position =
            selectColumnStep p output targetNode (termOffsetOf p uri sql position)
          \<and> (lookupNode SelectColumnT (Some targetNode) = None \<longrightarrow>
               TermDocument p uri position = Inr []))"
proof (intro conjI impI)
  assume "getTableMetadataFromPath p (col_TableName column) = Inl err"
  then show "TermDocument p uri position =
      Inr [\<lparr>Language = ''markdown'', Value = col_Name column @ '': '' @ col_Type column\<rparr>]"
    using table out call field
    by (simp add: TermDocument_chain [OF cached target] columnRefStep_found [OF ref]
        columnMarkedString_lookup_fails)
next
  assume found: "getTableMetadataFromPath p (col_TableName column) = Inr tableMetadata"
     and none: "find (\<lambda>c. col_Name column = fs_Name c) (Schema tableMetadata) = None"
  show fall: "TermDocument p uri position =
      selectColumnStep p output targetNode (termOffsetOf p uri sql position)"
    using table out call field
    by (simp add: TermDocument_chain [OF cached target] columnRefStep_found [OF ref]
        columnMarkedString_no_field [OF found none])
  assume "lookupNode SelectColumnT (Some targetNode) = None"
  then show "TermDocument p uri position = Inr []"
    unfolding fall by (simp add: selectColumnStep_def)
qed

text \<open>C5, counterexample: the hover over \<open>y\<close> in \<open>SELECT a.x FROM t AS a WHERE a.y\<close> with
  a store that knows \<open>t\<close> with the single field \<open>x\<close>. The column reference is found, the
  lookup succeeds, no field is named \<open>y\<close>, and the hover returns empty.\<close>

theorem column_step_no_field_counterexample:
  "searchResolvedAstNode ColumnRefT exOutputWhere 31 =
     Some (ColumnRefNode (Some (29, 32)) (Some exColumnY) ''ColumnRef'')
   \<and> getTableMetadataFromPath (exProjectWhere exStore) (col_TableName exColumnY) = Inr exTable
   \<and> find (\<lambda>c. col_Name exColumnY = fs_Name c) (Schema exTable) = None
   \<and> columnRefStep (exProjectWhere exStore) exOutputWhere 31 = None
   \<and> TermDocument (exProjectWhere exStore) exUri \<lparr>Line = 0, Character = 31\<rparr> = Inr []"
  by (simp add: TermDocument_def ex_defs hover_defs)

text \<open>C5, witness: the same hover with the failing store and with the store that knows
  only \<open>x\<close>.\<close>

theorem column_step_degrades_or_falls_through_witness:
  "TermDocument (exProjectWhere exFailingStore) exUri \<lparr>Line = 0, Character = 31\<rparr> =
     Inr [\<lparr>Language = ''markdown'', Value = ''y: BOOL''\<rparr>]
   \<and> TermDocument (exProjectWhere exStore) exUri \<lparr>Line = 0, Character = 31\<rparr> =
     selectColumnStep (exProjectWhere exStore) exOutputWhere (exWherePath 32) 31
   \<and> TermDocument (exProjectWhere exStore) exUri \<lparr>Line = 0, Character = 31\<rparr> = Inr []"
proof -
  let ?pos = "\<lparr>Line = 0, Character = 31\<rparr>" and ?sql = "\<lparr>RawText = exTextWhere\<rparr>"
  have r: "searchResolvedAstNode ColumnRefT exOutputWhere 31 =
      Some (ColumnRefNode (Some (29, 32)) (Some exColumnY) ''ColumnRef'')"
    by (simp add: ex_defs hover_defs)
  have f: "functionCallStep exOutputWhere 31 = None"
    by (simp add: ex_defs hover_defs)
  have g: "getStructFieldStep exOutputWhere 31 = None"
    by (simp add: ex_defs hover_defs)
  have reach: "cache_Get (cache (exProjectWhere store)) exUri = Some ?sql"
    "targetNodeOf (exProjectWhere store) exUri ?sql ?pos = Some (exWherePath 32)"
    "tableStep (exProjectWhere store) (exWherePath 32) = None"
    "outputOf (exProjectWhere store) exUri ?sql ?pos = Some exOutputWhere"
    "termOffsetOf (exProjectWhere store) exUri ?sql ?pos = 31" for store
    by (simp_all add: ex_defs hover_defs)
  have s1: "getTableMetadataFromPath (exProjectWhere exFailingStore) (col_TableName exColumnY) =
      Inl ''not found''"
    by (simp add: ex_defs)
  have s2: "getTableMetadataFromPath (exProjectWhere exStore) (col_TableName exColumnY) = Inr exTable"
    by (simp add: ex_defs)
  have nf: "find (\<lambda>c. col_Name exColumnY = fs_Name c) (Schema exTable) = None"
    by (simp add: ex_defs)
  have ns: "lookupNode SelectColumnT (Some (exWherePath 32)) = None"
    by (simp add: ex_defs)
  have f': "functionCallStep exOutputWhere (termOffsetOf (exProjectWhere store) exUri ?sql ?pos) = None"
    and g': "getStructFieldStep exOutputWhere (termOffsetOf (exProjectWhere store) exUri ?sql ?pos) = None"
    and r': "searchResolvedAstNode ColumnRefT exOutputWhere
        (termOffsetOf (exProjectWhere store) exUri ?sql ?pos) =
        Some (ColumnRefNode (Some (29, 32)) (Some exColumnY) ''ColumnRef'')" for store
    unfolding reach(5) by (rule f, rule g, rule r)
  note fail = column_step_degrades_or_falls_through
    [OF reach(1) reach(2) reach(3) reach(4) f' g' r', of exFailingStore "''not found''"]
  note miss = column_step_degrades_or_falls_through
    [OF reach(1) reach(2) reach(3) reach(4) f' g' r', of exStore _ exTable]
  have first: "TermDocument (exProjectWhere exFailingStore) exUri ?pos =
      Inr [\<lparr>Language = ''markdown'', Value = col_Name exColumnY @ '': '' @ col_Type exColumnY\<rparr>]"
    using fail s1 by blast
  have second: "TermDocument (exProjectWhere exStore) exUri ?pos =
      selectColumnStep (exProjectWhere exStore) exOutputWhere (exWherePath 32)
        (termOffsetOf (exProjectWhere exStore) exUri ?sql ?pos)"
    using miss s2 nf by blast
  have third: "TermDocument (exProjectWhere exStore) exUri ?pos = Inr []"
    using miss s2 nf ns by blast
  show ?thesis
  proof (intro conjI)
    show "TermDocument (exProjectWhere exFailingStore) exUri ?pos =
        Inr [\<lparr>Language = ''markdown'', Value = ''y: BOOL''\<rparr>]"
      unfolding first by (simp add: exColumnY_def)
    show "TermDocument (exProjectWhere exStore) exUri ?pos =
        selectColumnStep (exProjectWhere exStore) exOutputWhere (exWherePath 32) 31"
      using second unfolding reach(5) .
    show "TermDocument (exProjectWhere exStore) exUri ?pos = Inr []"
      by (rule third)
  qed
qed

text \<open>
  C10. When the chain reaches the select-column strategy (no earlier strategy
  returned, and the located node has a select column above it), the select column has a
  candidate name, a scan is selected, and the candidate name, after the prefix removal,
  is the name of no column in that scan's column list, then \<open>TermDocument\<close> returns the
  error \<open>failed to find column info\<close> wrapped in \<open>failed to get column info\<close>.
\<close>

theorem select_column_no_match_is_error:
  assumes cached: "cache_Get (cache p) uri = Some sql"
      and target: "targetNodeOf p uri sql position = Some targetNode"
      and table: "tableStep p targetNode = None"
      and out: "outputOf p uri sql position = Some output"
      and call: "functionCallStep output (termOffsetOf p uri sql position) = None"
      and field: "getStructFieldStep output (termOffsetOf p uri sql position) = None"
      and ref: "columnRefStep p output (termOffsetOf p uri sql position) = None"
      and ancestor: "lookupNode SelectColumnT (Some targetNode) = Some selectColumnNode"
      and name: "getSelectColumnName selectColumnNode = Some columnName"
      and scan: "narrowLoop (scanNodesOf output) MaxInt None = Some scan"
      and nomatch: "find (\<lambda>c. col_Name c = removePrefixLoop (refNamesLoop (Some scan) []) columnName)
                      (ColumnList scan) = None"
  shows "TermDocument p uri position =
     Inl (Error ''failed to get column info: failed to find column info'')"
proof -
  have "getSelectColumnNodeToAnalyzedOutputCoumnNode output selectColumnNode
          (termOffsetOf p uri sql position) = Inl (Error ''failed to find column info'')"
    using name scan nomatch
    by (simp add: getSelectColumnNodeToAnalyzedOutputCoumnNode_def Let_def)
  then have "selectColumnStep p output targetNode (termOffsetOf p uri sql position) =
      Inl (Error ''failed to get column info: failed to find column info'')"
    using ancestor by (simp add: selectColumnStep_def Errorf_def)
  then show ?thesis
    using table out call field ref by (simp add: TermDocument_chain [OF cached target])
qed

text \<open>C10, witness: the hover over \<open>x\<close> in \<open>SELECT t.x FROM t\<close>. The table scan has no
  alias, so no prefix is collected, and the candidate name \<open>t.x\<close> is compared with the
  column name \<open>x\<close>.\<close>

theorem select_column_no_match_is_error_witness:
  "getSelectColumnName (exSelectColumn [''t'', ''x''] 17) = Some ''t.x''
   \<and> narrowLoop (scanNodesOf exOutputPlain) MaxInt None = Some exTableScanPlain
   \<and> removePrefixLoop (refNamesLoop (Some exTableScanPlain) []) ''t.x'' = ''t.x''
   \<and> map col_Name (ColumnList exTableScanPlain) = [''x'']
   \<and> TermDocument exProjectPlain exUri \<lparr>Line = 0, Character = 9\<rparr> =
       Inl (Error ''failed to get column info: failed to find column info'')"
proof -
  let ?pos = "\<lparr>Line = 0, Character = 9\<rparr>" and ?sql = "\<lparr>RawText = exTextPlain\<rparr>"
  have c: "cache_Get (cache exProjectPlain) exUri = Some ?sql"
    by (simp add: ex_defs hover_defs)
  have t: "targetNodeOf exProjectPlain exUri ?sql ?pos = Some (exSelectPath [''t'', ''x''] 17)"
    by (simp add: ex_defs hover_defs)
  have off: "termOffsetOf exProjectPlain exUri ?sql ?pos = 9"
    by (simp add: ex_defs hover_defs)
  have ts: "tableStep exProjectPlain (exSelectPath [''t'', ''x''] 17) = None"
    by (simp add: ex_defs hover_defs)
  have out: "outputOf exProjectPlain exUri ?sql ?pos = Some exOutputPlain"
    by (simp add: ex_defs hover_defs)
  have f: "functionCallStep exOutputPlain 9 = None"
    by (simp add: ex_defs hover_defs)
  have g: "getStructFieldStep exOutputPlain 9 = None"
    by (simp add: ex_defs hover_defs)
  have r: "columnRefStep exProjectPlain exOutputPlain 9 = None"
    by (simp add: ex_defs hover_defs)
  have a: "lookupNode SelectColumnT (Some (exSelectPath [''t'', ''x''] 17)) =
      Some (exSelectColumn [''t'', ''x''] 17)"
    by (simp add: ex_defs)
  have n: "getSelectColumnName (exSelectColumn [''t'', ''x''] 17) = Some ''t.x''"
    by (simp add: ex_defs)
  have s: "narrowLoop (scanNodesOf exOutputPlain) MaxInt None = Some exTableScanPlain"
    by (simp add: ex_defs hover_defs)
  have p: "removePrefixLoop (refNamesLoop (Some exTableScanPlain) []) ''t.x'' = ''t.x''"
    by (simp add: ex_defs hover_defs)
  have cl: "map col_Name (ColumnList exTableScanPlain) = [''x'']"
    by (simp add: ex_defs)
  have m: "find (\<lambda>c. col_Name c = removePrefixLoop (refNamesLoop (Some exTableScanPlain) []) ''t.x'')
      (ColumnList exTableScanPlain) = None"
    unfolding p by (simp add: ex_defs)
  have f': "functionCallStep exOutputPlain (termOffsetOf exProjectPlain exUri ?sql ?pos) = None"
    and g': "getStructFieldStep exOutputPlain (termOffsetOf exProjectPlain exUri ?sql ?pos) = None"
    and r': "columnRefStep exProjectPlain exOutputPlain
        (termOffsetOf exProjectPlain exUri ?sql ?pos) = None"
    unfolding off by (rule f, rule g, rule r)
  have e: "TermDocument exProjectPlain exUri ?pos =
      Inl (Error ''failed to get column info: failed to find column info'')"
    by (rule select_column_no_match_is_error [OF c t ts out f' g' r' a n s m])
  show ?thesis
  proof (intro conjI)
    show "getSelectColumnName (exSelectColumn [''t'', ''x''] 17) = Some ''t.x''" by (rule n)
    show "narrowLoop (scanNodesOf exOutputPlain) MaxInt None = Some exTableScanPlain" by (rule s)
    show "removePrefixLoop (refNamesLoop (Some exTableScanPlain) []) ''t.x'' = ''t.x''" by (rule p)
    show "map col_Name (ColumnList exTableScanPlain) = [''x'']" by (rule cl)
    show "TermDocument exProjectPlain exUri ?pos =
        Inl (Error ''failed to get column info: failed to find column info'')" by (rule e)
  qed
qed


text \<open>
  When the document is cached and no path expression is found at the offset,
  \<open>TermDocument\<close> returns empty and no error.
\<close>

theorem no_path_expression_hover_empty:
  assumes "cache_Get (cache p) uri = Some sql"
      and "targetNodeOf p uri sql position = None"
  shows "TermDocument p uri position = Inr []"
proof -
  have "searchAstNode PathExpressionT (Node (ParseFile p uri (RawText sql)))
          (fixTermOffsetForNode (ParseFile p uri (RawText sql))
            (positionToByteOffset (RawText sql) position)) = None"
    using assms(2) unfolding targetNodeOf_def termOffsetOf_def .
  then show ?thesis
    unfolding TermDocument_def Let_def using assms(1) by simp
qed

text \<open>Witness: the empty document, whose tree has no path expression; the position
  line 0, character 0 is the offset 0.\<close>

theorem no_path_expression_hover_empty_witness:
  "positionToByteOffset [] \<lparr>Line = 0, Character = 0\<rparr> = 0
   \<and> TermDocument (exProject [] (exParsed [] []) exFailingStore) exUri \<lparr>Line = 0, Character = 0\<rparr> = Inr []"
proof -
  let ?p = "exProject [] (exParsed [] []) exFailingStore"
  have c: "cache_Get (cache ?p) exUri = Some \<lparr>RawText = []\<rparr>"
    by (simp add: exProject_def cache_Get_def)
  have t: "targetNodeOf ?p exUri \<lparr>RawText = []\<rparr> \<lparr>Line = 0, Character = 0\<rparr> = None"
    by (simp add: exProject_def exParsed_def targetNodeOf_def termOffsetOf_def searchAstNode_def)
  have "positionToByteOffset [] \<lparr>Line = 0, Character = 0\<rparr> = 0"
    by (simp add: positionToByteOffset_def)
  then show ?thesis using no_path_expression_hover_empty [OF c t] by simp
qed

end
